theory Spec2Isabelle
  imports Complex_Main "HOL-Library.Sublist"
begin

section \<open>The WPT screenshot harness (wpt.py)\<close>

text \<open>
  The script serves a copy of the web-platform tests, asks an external renderer for a
  screenshot of every test page and of its reference page, and compares the two images.
  Everything it does goes through the operating system or a library, so the embedding
  passes an explicit state (the files of interest and the list of actions performed so
  far) and takes the outside world as an environment of functions: what \<open>glob\<close> lists,
  what \<open>os.path.relpath\<close> returns, how the renderer process ends, what the HTML parser
  finds, what the pixel matcher counts.  Every exception of the source is a value.
\<close>

subsection \<open>Data\<close>

type_synonym path = string

text \<open>A decoded raster image: mode, (width, height), and one RGBA tuple per pixel.\<close>

datatype image = Image (mode: string) (size: "nat \<times> nat") (pixels: "(nat \<times> nat \<times> nat \<times> nat) list")

text \<open>\<open>Image.new(mode, size)\<close>: every channel of every pixel is 0.\<close>

definition Image_new :: "string \<Rightarrow> nat \<times> nat \<Rightarrow> image" where
  "Image_new m sz = Image m sz (replicate (fst sz * snd sz) (0, 0, 0, 0))"

text \<open>What a path of the file system holds: an image file, or something that is not one.\<close>

datatype disk_file = PngFile image | OtherFile

text \<open>The exceptions the script can meet.\<close>

datatype error =
    FileNotFoundError path
  | UnidentifiedImageError path
  | KeyError string
  | CalledProcessError "string list" int
  | TimeoutExpired "string list" nat
  | OSError string
  | OtherError string

text \<open>
  How one \<open>subprocess.run\<close> of the renderer ends: the process exits with a status,
  it is still running when the timeout expires, or it cannot be started at all.
\<close>

datatype proc_exit = Exited int | TimedOut | NotStarted string

record proc_result =
  exit_of :: proc_exit
  written :: "disk_file option"  \<comment> \<open>what the process left at the fixed screenshot path, if anything\<close>

datatype level = INFO | ERROR

text \<open>
  The observable actions, in the order they happen: a line of the logger \<open>taffy-wpt\<close>,
  a line of the root logger, a \<open>print\<close>, a renderer invocation with the way it ended,
  the creation of the parent directories of a path, an image written to a path, and a
  call of the image comparator.
\<close>

datatype event =
    is_Log: Log level string
  | RootLog level string
  | Print string
  | PrintExc error
  | is_Run: Run "string list" proc_exit
  | MkdirParent path
  | Makedirs path
  | is_Save: Save path image
  | is_Compare: Compare image image

record state =
  fs :: "path \<rightharpoonup> disk_file"
  trace :: "event list"

text \<open>The keyword arguments of the pixel matcher.\<close>

record pm_args =
  threshold :: real
  diff_mask :: bool
  includeAA :: bool

text \<open>A tag of the parsed HTML, as its attributes.\<close>

type_synonym tag = "(string \<times> string) list"

text \<open>
  The environment.  \<open>subprocess env n cmd\<close> is the fate of the \<open>n\<close>-th process started
  (counting from 0), so the renderer may answer differently each time it is asked.
  \<open>soup_find_link env file\<close> stands for opening \<open>file\<close>, parsing it with BeautifulSoup
  and \<open>soup.find("link", rel="match")\<close>: an exception, no tag, or the tag found.
  \<open>pixelmatch env img1 img2 out args\<close> is the external pixel matcher: an exception, or the
  number of mismatched pixels together with the diff image it drew into \<open>out\<close>.
\<close>

record env =
  getenv :: "string \<Rightarrow> string option"
  glob :: "string \<Rightarrow> string list"
  relpath :: "string \<Rightarrow> string \<Rightarrow> string"
  subprocess :: "nat \<Rightarrow> string list \<Rightarrow> proc_result"
  mkdir_error :: "path \<Rightarrow> error option"
  save_error :: "path \<Rightarrow> error option"
  soup_find_link :: "path \<Rightarrow> error + tag option"
  pixelmatch :: "image \<Rightarrow> image \<Rightarrow> image \<Rightarrow> pm_args \<Rightarrow> error + int \<times> image"

text \<open>
  Where a block of the loop body leaves control: at the next statement (with a value),
  at the next iteration (\<open>continue\<close>), or in an exception nobody has caught.
\<close>

datatype 'a flow = Next 'a state | Continue state | Raise error state

definition then_do :: "'a flow \<Rightarrow> ('a \<Rightarrow> state \<Rightarrow> 'b flow) \<Rightarrow> 'b flow" where
  "then_do m f = (case m of Next x st \<Rightarrow> f x st | Continue st \<Rightarrow> Continue st | Raise e st \<Rightarrow> Raise e st)"

fun state_of :: "'a flow \<Rightarrow> state" where
  "state_of (Next x st) = st"
| "state_of (Continue st) = st"
| "state_of (Raise e st) = st"


fun value_of :: "'a flow \<Rightarrow> 'a option" where
  "value_of (Next x st) = Some x"
| "value_of (Continue st) = None"
| "value_of (Raise e st) = None"

text \<open>The actions performed between two states, and the \<open>taffy-wpt\<close> log lines among them.\<close>

definition emitted :: "state \<Rightarrow> state \<Rightarrow> event list" where
  "emitted st st' = drop (length (trace st)) (trace st')"

definition logged :: "state \<Rightarrow> state \<Rightarrow> event list" where
  "logged st st' = filter is_Log (emitted st st')"

subsection \<open>Library calls\<close>

definition do_event :: "event \<Rightarrow> state \<Rightarrow> state" where
  "do_event ev st = st\<lparr>trace := trace st @ [ev]\<rparr>"

definition logger_info :: "string \<Rightarrow> state \<Rightarrow> state" where
  "logger_info msg = do_event (Log INFO msg)"

definition logger_error :: "string \<Rightarrow> state \<Rightarrow> state" where
  "logger_error msg = do_event (Log ERROR msg)"

definition logging_error :: "string \<Rightarrow> state \<Rightarrow> state" where
  "logging_error msg = do_event (RootLog ERROR msg)"

text \<open>\<open>s.replace(old, new)\<close> for an \<open>old\<close> of one character \<open>c\<close>.\<close>

definition replace_char :: "char \<Rightarrow> string \<Rightarrow> string \<Rightarrow> string" where
  "replace_char c new s = concat (map (\<lambda>x. if x = c then new else [x]) s)"

text \<open>The file at \<open>p\<close> becomes \<open>f\<close>.\<close>

definition store :: "path \<Rightarrow> disk_file \<Rightarrow> state \<Rightarrow> state" where
  "store p f st = st\<lparr>fs := (fs st)(p \<mapsto> f)\<rparr>"

text \<open>
  \<open>subprocess.run(cmd, timeout=timeout, check=True, ...)\<close>: the process is started, may
  write the screenshot file \<open>out\<close>, and ends.  With \<open>check=True\<close> a non-zero status
  raises \<open>CalledProcessError\<close>; an expired timeout raises \<open>TimeoutExpired\<close>.
  \<open>process_ran\<close> is the state the process leaves behind: the invocation is recorded
  and \<open>out\<close> holds what the process wrote there.
\<close>

definition process_ran :: "env \<Rightarrow> path \<Rightarrow> string list \<Rightarrow> state \<Rightarrow> state" where
  "process_ran env out cmd st =
     (let r = subprocess env (length (filter is_Run (trace st))) cmd;
          st1 = do_event (Run cmd (exit_of r)) st
      in case written r of None \<Rightarrow> st1 | Some f \<Rightarrow> store out f st1)"

definition subprocess_run :: "env \<Rightarrow> path \<Rightarrow> string list \<Rightarrow> nat \<Rightarrow> state \<Rightarrow> unit flow" where
  "subprocess_run env out cmd timeout st =
     (let r = subprocess env (length (filter is_Run (trace st))) cmd;
          st1 = process_ran env out cmd st
      in case exit_of r of
           Exited c \<Rightarrow> if c = 0 then Next () st1 else Raise (CalledProcessError cmd c) st1
         | TimedOut \<Rightarrow> Raise (TimeoutExpired cmd timeout) st1
         | NotStarted msg \<Rightarrow> Raise (OSError msg) st1)"

text \<open>\<open>Path(p).parent.mkdir(parents=True, exist_ok=True)\<close>\<close>

definition mkdir_parent :: "env \<Rightarrow> path \<Rightarrow> state \<Rightarrow> unit flow" where
  "mkdir_parent env p st =
     (case mkdir_error env p of
        Some e \<Rightarrow> Raise e st
      | None \<Rightarrow> Next () (do_event (MkdirParent p) st))"

text \<open>
  \<open>Image.open(p)\<close>.  Pillow reads the pixels when they are first used; no file is
  changed between the moment the script opens it and the moment it uses it, so the image
  is read here.  (\<open>LOAD_TRUNCATED_IMAGES\<close> of line 19 lets a truncated file load.)
\<close>

definition Image_open :: "path \<Rightarrow> state \<Rightarrow> image flow" where
  "Image_open p st =
     (case fs st p of
        None \<Rightarrow> Raise (FileNotFoundError p) st
      | Some OtherFile \<Rightarrow> Raise (UnidentifiedImageError p) st
      | Some (PngFile img) \<Rightarrow> Next img st)"

text \<open>\<open>img.save(p)\<close>\<close>

definition Image_save :: "env \<Rightarrow> image \<Rightarrow> path \<Rightarrow> state \<Rightarrow> unit flow" where
  "Image_save env img p st =
     (case save_error env p of
        Some e \<Rightarrow> Raise e st
      | None \<Rightarrow> Next () (do_event (Save p img) (store p (PngFile img) st)))"

subsection \<open>The comparator\<close>

text \<open>
  \<open>create_diff_image_or_none(img1, img2)\<close>, lines 38 to 46.  The count the matcher
  returns is a Python integer, compared with \<open><= 0\<close>.
\<close>

definition create_diff_image_or_none :: "env \<Rightarrow> image \<Rightarrow> image \<Rightarrow> error + image option" where
  "create_diff_image_or_none env img1 img2 =
     (let img_diff = Image_new ''RGBA'' (size img1) in
      case pixelmatch env img1 img2 img_diff \<lparr>threshold = 0, diff_mask = True, includeAA = True\<rparr> of
        Inl e \<Rightarrow> Inl e
      | Inr (n, img_diff') \<Rightarrow>
          (let did_pass = (n \<le> 0) in
           if \<not> did_pass then Inr (Some img_diff') else Inr None))"

subsection \<open>The body of the loop of main\<close>

text \<open>Line 80: the files that are not test cases of their own.\<close>

definition excluded :: "string \<Rightarrow> bool" where
  "excluded file \<longleftrightarrow>
     suffix ''-ref.html'' file \<or> suffix ''.tentative.html'' file \<or> sublist ''reference'' file"

text \<open>The strings the body builds, under the names the source gives them.\<close>

definition output_path :: "string \<Rightarrow> path" where
  "output_path blitz_path = blitz_path @ ''/examples/output/localhost800.png''"

definition fail_message :: "string \<Rightarrow> string" where
  "fail_message file = ''FAIL: '' @ file"

definition pass_message :: "string \<Rightarrow> string" where
  "pass_message file = ''PASS: '' @ file"

definition skip_message :: "string \<Rightarrow> string" where
  "skip_message file = ''SKIP: '' @ file"

definition url :: "string \<Rightarrow> string" where
  "url rel_path = ''http://localhost:8000/'' @ rel_path"

definition reference_url :: "string \<Rightarrow> string" where
  "reference_url href_value = ''http://localhost:8000/css/css-flexbox/'' @ href_value"

definition cmd :: "string \<Rightarrow> string \<Rightarrow> string list" where
  "cmd blitz_path u =
     [''cargo'', ''run'', ''--release'', ''--manifest-path'', blitz_path @ ''/Cargo.toml'',
      ''--example'', ''screenshot'', u]"

definition actual_out_path :: "string \<Rightarrow> path" where
  "actual_out_path rel_path = ''out/'' @ rel_path @ ''-act.png''"

definition expected_out_path :: "string \<Rightarrow> path" where
  "expected_out_path rel_path = ''out/'' @ rel_path @ ''-ref.png''"

text \<open>Lines 137 and 138: \<open>rel_path.replace("\\", "_")\<close>; the character replaced is the backslash.\<close>

definition diff_output_path :: "string \<Rightarrow> path" where
  "diff_output_path rel_path = ''out/'' @ replace_char (CHR 0x5C) ''_'' rel_path @ ''-diff.png''"

text \<open>
  Lines 87 to 95 and 121 to 129: the renderer is run once; its two handled exceptions
  log the skip message and go to the next file, any other exception is not caught.
\<close>

definition try_render :: "env \<Rightarrow> string \<Rightarrow> string list \<Rightarrow> string \<Rightarrow> state \<Rightarrow> unit flow" where
  "try_render env blitz_path c file st =
     (let timeout = 5 in
      case subprocess_run env (output_path blitz_path) c timeout st of
        Next u st1 \<Rightarrow> Next u st1
      | Continue st1 \<Rightarrow> Continue st1
      | Raise (TimeoutExpired a t) st1 \<Rightarrow> Continue (logger_info (skip_message file) st1)
      | Raise (CalledProcessError a r) st1 \<Rightarrow>
          Continue (logger_info (skip_message file) (do_event (PrintExc (CalledProcessError a r)) st1))
      | Raise e st1 \<Rightarrow> Raise e st1)"

text \<open>
  Lines 97 to 101 and 131 to 135: the screenshot at the renderer's fixed path is copied
  to \<open>dest\<close> and read back from there.
\<close>

definition copy_screenshot :: "env \<Rightarrow> string \<Rightarrow> path \<Rightarrow> state \<Rightarrow> image flow" where
  "copy_screenshot env blitz_path dest st =
     then_do (mkdir_parent env dest st) (\<lambda>_ st1.
     then_do (Image_open (output_path blitz_path) st1) (\<lambda>image st2.
     then_do (Image_save env image dest st2) (\<lambda>_ st3.
     Image_open dest st3)))"

text \<open>
  Lines 103 to 117.  \<open>url_dir\<close> of line 113 is computed and never used; the URL of the
  reference is the fixed base followed by the \<open>href\<close> value, and it is printed.
\<close>

definition resolve_reference :: "env \<Rightarrow> string \<Rightarrow> state \<Rightarrow> string flow" where
  "resolve_reference env file st =
     (case soup_find_link env file of
        Inl e \<Rightarrow> Raise e st
      | Inr None \<Rightarrow> Continue (logger_info (skip_message file) st)
      | Inr (Some link_tag) \<Rightarrow>
          (case map_of link_tag ''href'' of
             None \<Rightarrow> Raise (KeyError ''href'') st
           | Some href_value \<Rightarrow>
               Next (reference_url href_value) (do_event (Print (reference_url href_value)) st)))"

text \<open>Lines 137 to 150: the comparison, the diff artifact and the verdict.\<close>

definition compare_and_report ::
  "env \<Rightarrow> string \<Rightarrow> string \<Rightarrow> image \<Rightarrow> image \<Rightarrow> state \<Rightarrow> unit flow" where
  "compare_and_report env file rel_path actual_image expected_image st =
     (let st1 = do_event (Compare actual_image expected_image) st
      in case create_diff_image_or_none env actual_image expected_image of
           Inl e \<Rightarrow> Raise e st1
         | Inr diff_image \<Rightarrow>
             then_do
               (case diff_image of
                  Some d \<Rightarrow> then_do (Image_save env d (diff_output_path rel_path) st1) (\<lambda>_ st2. Next False st2)
                | None \<Rightarrow> Next True st1)
               (\<lambda>are_equal st3.
                  if are_equal then Next () (logger_info (pass_message file) st3)
                  else Next () (logger_error (fail_message file) st3)))"

text \<open>Lines 83 to 150: one test case, after the filter of line 80.\<close>

definition process_case :: "env \<Rightarrow> string \<Rightarrow> string \<Rightarrow> string \<Rightarrow> state \<Rightarrow> unit flow" where
  "process_case env wpt_dir blitz_path file st =
     (let rel_path = relpath env file wpt_dir in
      then_do (try_render env blitz_path (cmd blitz_path (url rel_path)) file st) (\<lambda>_ st1.
      then_do (copy_screenshot env blitz_path (actual_out_path rel_path) st1) (\<lambda>actual_image st2.
      then_do (resolve_reference env file st2) (\<lambda>ref_url st3.
      then_do (try_render env blitz_path (cmd blitz_path ref_url) file st3) (\<lambda>_ st4.
      then_do (copy_screenshot env blitz_path (expected_out_path rel_path) st4) (\<lambda>expected_image st5.
      compare_and_report env file rel_path actual_image expected_image st5))))))"

text \<open>Lines 76 to 150: the body of the loop.\<close>

definition loop_body :: "env \<Rightarrow> string \<Rightarrow> string \<Rightarrow> string \<Rightarrow> state \<Rightarrow> unit flow" where
  "loop_body env wpt_dir blitz_path file st =
     (if excluded file then Continue st else process_case env wpt_dir blitz_path file st)"

text \<open>
  Line 75: the loop.  An exception leaves the loop and the program; the files after it
  are not looked at.
\<close>

fun main_loop :: "env \<Rightarrow> string \<Rightarrow> string \<Rightarrow> string list \<Rightarrow> state \<Rightarrow> error option \<times> state" where
  "main_loop env wpt_dir blitz_path [] st = (None, st)"
| "main_loop env wpt_dir blitz_path (file # files) st =
     (case loop_body env wpt_dir blitz_path file st of
        Next u st' \<Rightarrow> main_loop env wpt_dir blitz_path files st'
      | Continue st' \<Rightarrow> main_loop env wpt_dir blitz_path files st'
      | Raise e st' \<Rightarrow> (Some e, st'))"

text \<open>
  \<open>main\<close>, lines 49 to 152.  The file server of lines 67 and 68 runs in a thread of its
  own and is seen only through what the renderer does.  \<open>shutil.rmtree("out",
  ignore_errors=True)\<close> leaves nothing below \<open>out\<close>; \<open>os.makedirs("out", exist_ok=True)\<close>
  creates the directory again.  The result is the exception the program dies of, if any.
\<close>

definition rmtree :: "string \<Rightarrow> state \<Rightarrow> state" where
  "rmtree d st = st\<lparr>fs := (\<lambda>p. if prefix (d @ ''/'') p then None else fs st p)\<rparr>"

definition makedirs :: "env \<Rightarrow> path \<Rightarrow> state \<Rightarrow> unit flow" where
  "makedirs env d st =
     (case mkdir_error env d of
        Some e \<Rightarrow> Raise e st
      | None \<Rightarrow> Next () (do_event (Makedirs d) st))"

definition main :: "env \<Rightarrow> state \<Rightarrow> error option \<times> state" where
  "main env st =
     (case getenv env ''WPT_DIR'' of
        None \<Rightarrow> (None, logging_error ''WPT_DIR environment variable is not set'' st)
      | Some wpt_dir \<Rightarrow>
          (case getenv env ''BLITZ_REPO'' of
             None \<Rightarrow> (None, logging_error ''BLITZ_REPO environment variable is not set'' st)
           | Some blitz_path \<Rightarrow>
               (case makedirs env ''out'' (rmtree ''out'' st) of
                  Raise e st1 \<Rightarrow> (Some e, st1)
                | Continue st1 \<Rightarrow> (None, st1)
                | Next u st1 \<Rightarrow>
                    (let files = glob env (wpt_dir @ ''/css/css-flexbox/**/*.html'')
                     in main_loop env wpt_dir blitz_path files st1))))"

subsection \<open>The enumeration, in the words of the specification\<close>

text \<open>
  The test cases the enumerator selects: the matches of the glob pattern that the filter
  does not exclude, in the order of the listing.  \<open>visit_all\<close> processes each file of a
  list once, in order, and stops at the first uncaught exception.
\<close>

definition selected :: "string list \<Rightarrow> string list" where
  "selected files = filter (\<lambda>file. \<not> excluded file) files"

fun visit_all :: "env \<Rightarrow> string \<Rightarrow> string \<Rightarrow> string list \<Rightarrow> state \<Rightarrow> error option \<times> state" where
  "visit_all env wpt_dir blitz_path [] st = (None, st)"
| "visit_all env wpt_dir blitz_path (file # files) st =
     (case process_case env wpt_dir blitz_path file st of
        Raise e st' \<Rightarrow> (Some e, st')
      | r \<Rightarrow> visit_all env wpt_dir blitz_path files (state_of r))"

subsection \<open>The files the loop visits\<close>

text \<open>
  The loop of \<open>main\<close> once more, this time collecting the files it visits: a file is
  visited when the loop reaches it and the filter of line 80 lets it through to line 83.
  The recursion is that of \<open>main_loop\<close>: after \<open>continue\<close> or the end of the body the
  loop goes on with the next file, after an uncaught exception it visits nothing more.
\<close>

fun visited :: "env \<Rightarrow> string \<Rightarrow> string \<Rightarrow> string list \<Rightarrow> state \<Rightarrow> string list" where
  "visited env wpt_dir blitz_path [] st = []"
| "visited env wpt_dir blitz_path (file # files) st =
     (if excluded file then [] else [file]) @
     (case loop_body env wpt_dir blitz_path file st of
        Next u st' \<Rightarrow> visited env wpt_dir blitz_path files st'
      | Continue st' \<Rightarrow> visited env wpt_dir blitz_path files st'
      | Raise e st' \<Rightarrow> [])"

subsection \<open>A sample environment\<close>

text \<open>
  An environment to run the harness in: one test, \<open>/wpt/css/css-flexbox/foo.html\<close>, whose
  link points to \<open>foo-ref.html\<close>; \<open>relpath\<close> as it is for a file below the start
  directory on a POSIX system; screenshots one pixel large.  \<open>sample_pixelmatch\<close> stands
  in for the pixel matcher in these runs only: it counts the positions where two images of
  the same size differ and marks them red.  It is not a model of the pixelmatch library,
  and no general statement about the harness depends on it: there the matcher is the
  \<open>pixelmatch\<close> field of an arbitrary environment.
\<close>

definition sample_pixelmatch :: "image \<Rightarrow> image \<Rightarrow> image \<Rightarrow> pm_args \<Rightarrow> error + int \<times> image" where
  "sample_pixelmatch a b out args =
     (if size a \<noteq> size b then Inl (OtherError ''ValueError'')
      else Inr (int (length (filter (\<lambda>(p, q). p \<noteq> q) (zip (pixels a) (pixels b)))),
                Image (mode out) (size out)
                  (map (\<lambda>(p, q). if p \<noteq> q then (255, 0, 0, 255) else (0, 0, 0, 0))
                     (zip (pixels a) (pixels b)))))"

definition sample_env ::
  "(nat \<Rightarrow> string list \<Rightarrow> proc_result) \<Rightarrow> (path \<Rightarrow> error + tag option) \<Rightarrow> env" where
  "sample_env sp soup =
     \<lparr>getenv = [''WPT_DIR'' \<mapsto> ''/wpt'', ''BLITZ_REPO'' \<mapsto> ''/blitz''],
      glob = (\<lambda>_. [''/wpt/css/css-flexbox/foo.html'']),
      relpath = (\<lambda>file start. drop (Suc (length start)) file),
      subprocess = sp,
      mkdir_error = (\<lambda>_. None),
      save_error = (\<lambda>_. None),
      soup_find_link = soup,
      pixelmatch = sample_pixelmatch\<rparr>"

definition white :: image where
  "white = Image ''RGBA'' (1, 1) [(255, 255, 255, 255)]"

definition black :: image where
  "black = Image ''RGBA'' (1, 1) [(0, 0, 0, 255)]"

definition renders_same :: "nat \<Rightarrow> string list \<Rightarrow> proc_result" where
  "renders_same n c = \<lparr>exit_of = Exited 0, written = Some (PngFile white)\<rparr>"

definition renders_different :: "nat \<Rightarrow> string list \<Rightarrow> proc_result" where
  "renders_different n c =
     \<lparr>exit_of = Exited 0, written = Some (PngFile (if n = 0 then white else black))\<rparr>"

definition renders_nothing :: "nat \<Rightarrow> string list \<Rightarrow> proc_result" where
  "renders_nothing n c = \<lparr>exit_of = Exited 0, written = None\<rparr>"

definition renders_garbage :: "nat \<Rightarrow> string list \<Rightarrow> proc_result" where
  "renders_garbage n c = \<lparr>exit_of = Exited 0, written = Some OtherFile\<rparr>"

definition times_out :: "nat \<Rightarrow> string list \<Rightarrow> proc_result" where
  "times_out n c = \<lparr>exit_of = TimedOut, written = None\<rparr>"

definition with_link :: "path \<Rightarrow> error + tag option" where
  "with_link p = Inr (Some [(''rel'', ''match''), (''href'', ''foo-ref.html'')])"

definition without_link :: "path \<Rightarrow> error + tag option" where
  "without_link p = Inr None"

definition unreadable :: "path \<Rightarrow> error + tag option" where
  "unreadable p = Inl (OtherError ''UnicodeDecodeError'')"

text \<open>The same environment with a second test, \<open>bar.html\<close>, listed after the first.\<close>

definition two_tests :: "env \<Rightarrow> env" where
  "two_tests env = env\<lparr>glob := (\<lambda>_. [''/wpt/css/css-flexbox/foo.html'', ''/wpt/css/css-flexbox/bar.html''])\<rparr>"

definition empty_state :: state where
  "empty_state = \<lparr>fs = Map.empty, trace = []\<rparr>"

subsection \<open>Verdict lines\<close>

text \<open>The three lines a test case can be reported with.\<close>

definition verdict_line :: "string \<Rightarrow> event \<Rightarrow> bool" where
  "verdict_line file l \<longleftrightarrow>
     l = Log INFO (pass_message file) \<or> l = Log ERROR (fail_message file) \<or> l = Log INFO (skip_message file)"

section \<open>Facts about the blocks\<close>

subsection \<open>The state after each library call\<close>

lemma trace_do_event [simp]: "trace (do_event ev st) = trace st @ [ev]"
  by (simp add: do_event_def)

lemma fs_do_event [simp]: "fs (do_event ev st) = fs st"
  by (simp add: do_event_def)

lemma trace_store [simp]: "trace (store p f st) = trace st"
  by (simp add: store_def)

lemma fs_store [simp]: "fs (store p f st) = (fs st)(p \<mapsto> f)"
  by (simp add: store_def)

lemma trace_logger [simp]:
  "trace (logger_info m st) = trace st @ [Log INFO m]"
  "trace (logger_error m st) = trace st @ [Log ERROR m]"
  by (simp_all add: logger_info_def logger_error_def)

lemma fs_logger [simp]: "fs (logger_info m st) = fs st" "fs (logger_error m st) = fs st"
  by (simp_all add: logger_info_def logger_error_def)

lemma trace_process_ran [simp]:
  "trace (process_ran env out c st) =
     trace st @ [Run c (exit_of (subprocess env (length (filter is_Run (trace st))) c))]"
  by (simp add: process_ran_def Let_def split: option.split)

lemma fs_process_ran: "p \<noteq> out \<Longrightarrow> fs (process_ran env out c st) p = fs st p"
  by (simp add: process_ran_def Let_def split: option.split)

lemma fs_process_ran_full:
  "fs (process_ran env out c st) out =
     (case written (subprocess env (length (filter is_Run (trace st))) c) of
        None \<Rightarrow> fs st out | Some f \<Rightarrow> Some f)"
  by (simp add: process_ran_def Let_def split: option.split)

lemma emitted_append [simp]: "trace st' = trace st @ evs \<Longrightarrow> emitted st st' = evs"
  by (simp add: emitted_def)

lemma try_render_eq:
  "try_render env b c file st =
     (case exit_of (subprocess env (length (filter is_Run (trace st))) c) of
        Exited n \<Rightarrow>
          if n = 0 then Next () (process_ran env (output_path b) c st)
          else Continue (logger_info (skip_message file)
                 (do_event (PrintExc (CalledProcessError c n)) (process_ran env (output_path b) c st)))
      | TimedOut \<Rightarrow> Continue (logger_info (skip_message file) (process_ran env (output_path b) c st))
      | NotStarted msg \<Rightarrow> Raise (OSError msg) (process_ran env (output_path b) c st))"
  by (simp add: try_render_def subprocess_run_def Let_def split: proc_exit.split)

lemma copy_screenshot_eq:
  "copy_screenshot env b dest st =
     (case mkdir_error env dest of
        Some e \<Rightarrow> Raise e st
      | None \<Rightarrow>
         (case fs st (output_path b) of
            None \<Rightarrow> Raise (FileNotFoundError (output_path b)) (do_event (MkdirParent dest) st)
          | Some OtherFile \<Rightarrow> Raise (UnidentifiedImageError (output_path b)) (do_event (MkdirParent dest) st)
          | Some (PngFile img) \<Rightarrow>
              (case save_error env dest of
                 Some e \<Rightarrow> Raise e (do_event (MkdirParent dest) st)
               | None \<Rightarrow> Next img (do_event (Save dest img) (store dest (PngFile img) (do_event (MkdirParent dest) st))))))"
  by (simp add: copy_screenshot_def mkdir_parent_def Image_open_def Image_save_def then_do_def
           split: option.split disk_file.split)

lemma compare_and_report_eq:
  "compare_and_report env file rel a e st =
     (case pixelmatch env a e (Image_new ''RGBA'' (size a)) \<lparr>threshold = 0, diff_mask = True, includeAA = True\<rparr> of
        Inl err \<Rightarrow> Raise err (do_event (Compare a e) st)
      | Inr (n, d) \<Rightarrow>
          if n \<le> 0 then Next () (logger_info (pass_message file) (do_event (Compare a e) st))
          else (case save_error env (diff_output_path rel) of
                  Some err \<Rightarrow> Raise err (do_event (Compare a e) st)
                | None \<Rightarrow> Next () (logger_error (fail_message file)
                     (do_event (Save (diff_output_path rel) d)
                        (store (diff_output_path rel) (PngFile d) (do_event (Compare a e) st))))))"
  by (simp add: compare_and_report_def create_diff_image_or_none_def Image_save_def then_do_def Let_def
           split: option.split sum.split prod.split)

subsection \<open>How each block can end\<close>

lemma try_render_Next:
  assumes "try_render env b c file st = Next u st'"
  shows "exit_of (subprocess env (length (filter is_Run (trace st))) c) = Exited 0"
    and "st' = process_ran env (output_path b) c st"
  using assms by (auto simp: try_render_eq split: proc_exit.splits if_splits)

lemma try_render_Continue:
  assumes "try_render env b c file st = Continue st'"
  obtains (timeout) "exit_of (subprocess env (length (filter is_Run (trace st))) c) = TimedOut"
      "st' = logger_info (skip_message file) (process_ran env (output_path b) c st)"
  | (status) n where "exit_of (subprocess env (length (filter is_Run (trace st))) c) = Exited n" "n \<noteq> 0"
      "st' = logger_info (skip_message file) (do_event (PrintExc (CalledProcessError c n)) (process_ran env (output_path b) c st))"
  using assms by (auto simp: try_render_eq split: proc_exit.splits if_splits)

lemma try_render_Raise:
  assumes "try_render env b c file st = Raise e st'"
  shows "\<exists>msg. exit_of (subprocess env (length (filter is_Run (trace st))) c) = NotStarted msg \<and> e = OSError msg"
    and "st' = process_ran env (output_path b) c st"
  using assms by (auto simp: try_render_eq split: proc_exit.splits if_splits)

lemma copy_screenshot_Next:
  assumes "copy_screenshot env b dest st = Next img st'"
  shows "st' = do_event (Save dest img) (store dest (PngFile img) (do_event (MkdirParent dest) st))"
    and "fs st (output_path b) = Some (PngFile img)"
    and "mkdir_error env dest = None" and "save_error env dest = None"
  using assms by (auto simp: copy_screenshot_eq split: option.splits disk_file.splits)

lemma copy_screenshot_not_Continue: "copy_screenshot env b dest st \<noteq> Continue st'"
  by (auto simp: copy_screenshot_eq split: option.splits disk_file.splits)

lemma copy_screenshot_Raise:
  assumes "copy_screenshot env b dest st = Raise e st'"
  shows "st' = st \<or> st' = do_event (MkdirParent dest) st"
  using assms by (auto simp: copy_screenshot_eq split: option.splits disk_file.splits)

lemma resolve_reference_Next:
  assumes "resolve_reference env file st = Next u st'"
  shows "\<exists>link_tag href_value. soup_find_link env file = Inr (Some link_tag) \<and> map_of link_tag ''href'' = Some href_value
           \<and> u = reference_url href_value \<and> st' = do_event (Print u) st"
  using assms by (auto simp: resolve_reference_def split: sum.splits option.splits)

lemma resolve_reference_Continue:
  assumes "resolve_reference env file st = Continue st'"
  shows "soup_find_link env file = Inr None" and "st' = logger_info (skip_message file) st"
  using assms by (auto simp: resolve_reference_def split: sum.splits option.splits)

lemma resolve_reference_Raise:
  assumes "resolve_reference env file st = Raise e st'"
  shows "st' = st"
    and "soup_find_link env file = Inl e \<or> (\<exists>link_tag. soup_find_link env file = Inr (Some link_tag) \<and> map_of link_tag ''href'' = None \<and> e = KeyError ''href'')"
  using assms by (auto simp: resolve_reference_def split: sum.splits option.splits)

lemma compare_and_report_not_Continue: "compare_and_report env file rel a e st \<noteq> Continue st'"
  by (auto simp: compare_and_report_eq split: sum.splits option.splits prod.splits)

lemma compare_and_report_Raise:
  assumes "compare_and_report env file rel a e st = Raise err st'"
  shows "st' = do_event (Compare a e) st"
  using assms by (auto simp: compare_and_report_eq split: sum.splits option.splits prod.splits if_splits)

lemma compare_and_report_Next:
  assumes "compare_and_report env file rel a e st = Next u st'"
  obtains (pass) n d where
      "pixelmatch env a e (Image_new ''RGBA'' (size a)) \<lparr>threshold = 0, diff_mask = True, includeAA = True\<rparr> = Inr (n, d)"
      "n \<le> 0" "st' = logger_info (pass_message file) (do_event (Compare a e) st)"
  | (fail) n d where
      "pixelmatch env a e (Image_new ''RGBA'' (size a)) \<lparr>threshold = 0, diff_mask = True, includeAA = True\<rparr> = Inr (n, d)"
      "0 < n" "save_error env (diff_output_path rel) = None"
      "st' = logger_error (fail_message file) (do_event (Save (diff_output_path rel) d)
                        (store (diff_output_path rel) (PngFile d) (do_event (Compare a e) st)))"
  using assms by (auto simp: compare_and_report_eq split: sum.splits option.splits prod.splits if_splits)

subsection \<open>The paths through one test case\<close>

text \<open>The body is a chain of six blocks; it ends where the first of them does not go on.\<close>

lemma process_case_cases:
  obtains
    (skip1) st1 where
      "process_case env w b file st = Continue st1"
      "try_render env b (cmd b (url (relpath env file w))) file st = Continue st1"
  | (raise1) e st1 where
      "process_case env w b file st = Raise e st1"
      "try_render env b (cmd b (url (relpath env file w))) file st = Raise e st1"
  | (copy1) e st1 st2 where
      "process_case env w b file st = Raise e st2"
      "try_render env b (cmd b (url (relpath env file w))) file st = Next () st1"
      "copy_screenshot env b (actual_out_path (relpath env file w)) st1 = Raise e st2"
  | (nolink) st1 a st2 st3 where
      "process_case env w b file st = Continue st3"
      "try_render env b (cmd b (url (relpath env file w))) file st = Next () st1"
      "copy_screenshot env b (actual_out_path (relpath env file w)) st1 = Next a st2"
      "resolve_reference env file st2 = Continue st3"
  | (resolve) e st1 a st2 st3 where
      "process_case env w b file st = Raise e st3"
      "try_render env b (cmd b (url (relpath env file w))) file st = Next () st1"
      "copy_screenshot env b (actual_out_path (relpath env file w)) st1 = Next a st2"
      "resolve_reference env file st2 = Raise e st3"
  | (skip2) st1 a st2 u st3 st4 where
      "process_case env w b file st = Continue st4"
      "try_render env b (cmd b (url (relpath env file w))) file st = Next () st1"
      "copy_screenshot env b (actual_out_path (relpath env file w)) st1 = Next a st2"
      "resolve_reference env file st2 = Next u st3"
      "try_render env b (cmd b u) file st3 = Continue st4"
  | (raise2) e st1 a st2 u st3 st4 where
      "process_case env w b file st = Raise e st4"
      "try_render env b (cmd b (url (relpath env file w))) file st = Next () st1"
      "copy_screenshot env b (actual_out_path (relpath env file w)) st1 = Next a st2"
      "resolve_reference env file st2 = Next u st3"
      "try_render env b (cmd b u) file st3 = Raise e st4"
  | (copy2) e st1 a st2 u st3 st4 st5 where
      "process_case env w b file st = Raise e st5"
      "try_render env b (cmd b (url (relpath env file w))) file st = Next () st1"
      "copy_screenshot env b (actual_out_path (relpath env file w)) st1 = Next a st2"
      "resolve_reference env file st2 = Next u st3"
      "try_render env b (cmd b u) file st3 = Next () st4"
      "copy_screenshot env b (expected_out_path (relpath env file w)) st4 = Raise e st5"
  | (report) e st1 a st2 u st3 st4 x st5 st6 where
      "process_case env w b file st = Raise e st6"
      "try_render env b (cmd b (url (relpath env file w))) file st = Next () st1"
      "copy_screenshot env b (actual_out_path (relpath env file w)) st1 = Next a st2"
      "resolve_reference env file st2 = Next u st3"
      "try_render env b (cmd b u) file st3 = Next () st4"
      "copy_screenshot env b (expected_out_path (relpath env file w)) st4 = Next x st5"
      "compare_and_report env file (relpath env file w) a x st5 = Raise e st6"
  | (verdict) st1 a st2 u st3 st4 x st5 st6 where
      "process_case env w b file st = Next () st6"
      "try_render env b (cmd b (url (relpath env file w))) file st = Next () st1"
      "copy_screenshot env b (actual_out_path (relpath env file w)) st1 = Next a st2"
      "resolve_reference env file st2 = Next u st3"
      "try_render env b (cmd b u) file st3 = Next () st4"
      "copy_screenshot env b (expected_out_path (relpath env file w)) st4 = Next x st5"
      "compare_and_report env file (relpath env file w) a x st5 = Next () st6"
proof (cases "try_render env b (cmd b (url (relpath env file w))) file st")
  case (Continue st1)
  then show ?thesis using skip1 by (simp add: process_case_def then_do_def)
next
  case (Raise e st1)
  then show ?thesis using raise1 by (simp add: process_case_def then_do_def)
next
  case t1: (Next u1 st1)
  show ?thesis
  proof (cases "copy_screenshot env b (actual_out_path (relpath env file w)) st1")
    case (Continue s)
    then show ?thesis by (simp add: copy_screenshot_not_Continue)
  next
    case (Raise e st2)
    then show ?thesis using t1 copy1 by (simp add: process_case_def then_do_def)
  next
    case c1: (Next a st2)
    show ?thesis
    proof (cases "resolve_reference env file st2")
      case (Continue st3)
      then show ?thesis using t1 c1 nolink by (simp add: process_case_def then_do_def)
    next
      case (Raise e st3)
      then show ?thesis using t1 c1 resolve by (simp add: process_case_def then_do_def)
    next
      case r: (Next u st3)
      show ?thesis
      proof (cases "try_render env b (cmd b u) file st3")
        case (Continue st4)
        then show ?thesis using t1 c1 r skip2 by (simp add: process_case_def then_do_def)
      next
        case (Raise e st4)
        then show ?thesis using t1 c1 r raise2 by (simp add: process_case_def then_do_def)
      next
        case t2: (Next u2 st4)
        show ?thesis
        proof (cases "copy_screenshot env b (expected_out_path (relpath env file w)) st4")
          case (Continue s)
          then show ?thesis by (simp add: copy_screenshot_not_Continue)
        next
          case (Raise e st5)
          then show ?thesis using t1 c1 r t2 copy2 by (simp add: process_case_def then_do_def)
        next
          case c2: (Next x st5)
          show ?thesis
          proof (cases "compare_and_report env file (relpath env file w) a x st5")
            case (Continue s)
            then show ?thesis by (simp add: compare_and_report_not_Continue)
          next
            case (Raise e st6)
            then show ?thesis using t1 c1 r t2 c2 report by (simp add: process_case_def then_do_def)
          next
            case (Next u3 st6)
            then show ?thesis using t1 c1 r t2 c2 verdict by (simp add: process_case_def then_do_def)
          qed
        qed
      qed
    qed
  qed
qed

text \<open>The same paths, with the actions each of them performs.\<close>

lemma compare_and_report_Raise_cause:
  assumes "compare_and_report env file rel a e st = Raise err st'"
  shows "pixelmatch env a e (Image_new ''RGBA'' (size a)) \<lparr>threshold = 0, diff_mask = True, includeAA = True\<rparr> = Inl err
       \<or> (\<exists>n d. pixelmatch env a e (Image_new ''RGBA'' (size a)) \<lparr>threshold = 0, diff_mask = True, includeAA = True\<rparr> = Inr (n, d)
              \<and> 0 < n \<and> save_error env (diff_output_path rel) = Some err)"
  using assms by (auto simp: compare_and_report_eq split: sum.splits option.splits prod.splits if_splits)

lemma logged_append: "trace st' = trace st @ evs \<Longrightarrow> logged st st' = filter is_Log evs"
  by (simp add: logged_def)

lemma process_case_paths:
  fixes env "file" w b st rel act ref c1 n0 skip
  defines "rel \<equiv> relpath env file w"
      and "act \<equiv> actual_out_path rel"
      and "ref \<equiv> expected_out_path rel"
      and "c1 \<equiv> cmd b (url rel)"
      and "n0 \<equiv> length (filter is_Run (trace st))"
      and "skip \<equiv> Log INFO (skip_message file)"
  obtains
    (skip1_timeout) st' where
      "process_case env w b file st = Continue st'"
      "exit_of (subprocess env n0 c1) = TimedOut"
      "trace st' = trace st @ [Run c1 TimedOut, skip]"
  | (skip1_status) n st' where
      "process_case env w b file st = Continue st'"
      "exit_of (subprocess env n0 c1) = Exited n" "n \<noteq> 0"
      "trace st' = trace st @ [Run c1 (Exited n), PrintExc (CalledProcessError c1 n), skip]"
  | (raise1) msg st' where
      "process_case env w b file st = Raise (OSError msg) st'"
      "exit_of (subprocess env n0 c1) = NotStarted msg"
      "trace st' = trace st @ [Run c1 (NotStarted msg)]"
  | (copy1) e st' where
      "process_case env w b file st = Raise e st'"
      "exit_of (subprocess env n0 c1) = Exited 0"
      "trace st' = trace st @ [Run c1 (Exited 0)] \<or> trace st' = trace st @ [Run c1 (Exited 0), MkdirParent act]"
  | (nolink) a st' where
      "process_case env w b file st = Continue st'"
      "exit_of (subprocess env n0 c1) = Exited 0"
      "soup_find_link env file = Inr None"
      "trace st' = trace st @ [Run c1 (Exited 0), MkdirParent act, Save act a, skip]"
      "fs st' act = Some (PngFile a)"
      "\<And>p. p \<noteq> act \<Longrightarrow> p \<noteq> output_path b \<Longrightarrow> fs st' p = fs st p"
      "fs (process_ran env (output_path b) c1 st) (output_path b) = Some (PngFile a)"
  | (resolve) e a st' where
      "process_case env w b file st = Raise e st'"
      "exit_of (subprocess env n0 c1) = Exited 0"
      "soup_find_link env file = Inl e
         \<or> (\<exists>link_tag. soup_find_link env file = Inr (Some link_tag) \<and> map_of link_tag ''href'' = None \<and> e = KeyError ''href'')"
      "trace st' = trace st @ [Run c1 (Exited 0), MkdirParent act, Save act a]"
  | (skip2_timeout) a link_tag href st' where
      "process_case env w b file st = Continue st'"
      "exit_of (subprocess env n0 c1) = Exited 0"
      "soup_find_link env file = Inr (Some link_tag)" "map_of link_tag ''href'' = Some href"
      "exit_of (subprocess env (Suc n0) (cmd b (reference_url href))) = TimedOut"
      "trace st' = trace st @ [Run c1 (Exited 0), MkdirParent act, Save act a, Print (reference_url href),
                               Run (cmd b (reference_url href)) TimedOut, skip]"
  | (skip2_status) a link_tag href n st' where
      "process_case env w b file st = Continue st'"
      "exit_of (subprocess env n0 c1) = Exited 0"
      "soup_find_link env file = Inr (Some link_tag)" "map_of link_tag ''href'' = Some href"
      "exit_of (subprocess env (Suc n0) (cmd b (reference_url href))) = Exited n" "n \<noteq> 0"
      "trace st' = trace st @ [Run c1 (Exited 0), MkdirParent act, Save act a, Print (reference_url href),
                               Run (cmd b (reference_url href)) (Exited n),
                               PrintExc (CalledProcessError (cmd b (reference_url href)) n), skip]"
  | (raise2) a link_tag href msg st' where
      "process_case env w b file st = Raise (OSError msg) st'"
      "exit_of (subprocess env n0 c1) = Exited 0"
      "soup_find_link env file = Inr (Some link_tag)" "map_of link_tag ''href'' = Some href"
      "exit_of (subprocess env (Suc n0) (cmd b (reference_url href))) = NotStarted msg"
      "trace st' = trace st @ [Run c1 (Exited 0), MkdirParent act, Save act a, Print (reference_url href),
                               Run (cmd b (reference_url href)) (NotStarted msg)]"
  | (copy2) a link_tag href e st' where
      "process_case env w b file st = Raise e st'"
      "exit_of (subprocess env n0 c1) = Exited 0"
      "soup_find_link env file = Inr (Some link_tag)" "map_of link_tag ''href'' = Some href"
      "exit_of (subprocess env (Suc n0) (cmd b (reference_url href))) = Exited 0"
      "trace st' = trace st @ [Run c1 (Exited 0), MkdirParent act, Save act a, Print (reference_url href),
                               Run (cmd b (reference_url href)) (Exited 0)]
       \<or> trace st' = trace st @ [Run c1 (Exited 0), MkdirParent act, Save act a, Print (reference_url href),
                               Run (cmd b (reference_url href)) (Exited 0), MkdirParent ref]"
  | (report) a link_tag href x e st' where
      "process_case env w b file st = Raise e st'"
      "exit_of (subprocess env n0 c1) = Exited 0"
      "soup_find_link env file = Inr (Some link_tag)" "map_of link_tag ''href'' = Some href"
      "exit_of (subprocess env (Suc n0) (cmd b (reference_url href))) = Exited 0"
      "pixelmatch env a x (Image_new ''RGBA'' (size a)) \<lparr>threshold = 0, diff_mask = True, includeAA = True\<rparr> = Inl e
       \<or> (\<exists>n d. pixelmatch env a x (Image_new ''RGBA'' (size a)) \<lparr>threshold = 0, diff_mask = True, includeAA = True\<rparr> = Inr (n, d)
              \<and> 0 < n \<and> save_error env (diff_output_path rel) = Some e)"
      "trace st' = trace st @ [Run c1 (Exited 0), MkdirParent act, Save act a, Print (reference_url href),
                               Run (cmd b (reference_url href)) (Exited 0), MkdirParent ref, Save ref x,
                               Compare a x]"
  | (pass) a link_tag href x n d st' where
      "process_case env w b file st = Next () st'"
      "exit_of (subprocess env n0 c1) = Exited 0"
      "soup_find_link env file = Inr (Some link_tag)" "map_of link_tag ''href'' = Some href"
      "exit_of (subprocess env (Suc n0) (cmd b (reference_url href))) = Exited 0"
      "pixelmatch env a x (Image_new ''RGBA'' (size a)) \<lparr>threshold = 0, diff_mask = True, includeAA = True\<rparr> = Inr (n, d)"
      "n \<le> 0"
      "trace st' = trace st @ [Run c1 (Exited 0), MkdirParent act, Save act a, Print (reference_url href),
                               Run (cmd b (reference_url href)) (Exited 0), MkdirParent ref, Save ref x,
                               Compare a x, Log INFO (pass_message file)]"
  | (fail) a link_tag href x n d st' where
      "process_case env w b file st = Next () st'"
      "exit_of (subprocess env n0 c1) = Exited 0"
      "soup_find_link env file = Inr (Some link_tag)" "map_of link_tag ''href'' = Some href"
      "exit_of (subprocess env (Suc n0) (cmd b (reference_url href))) = Exited 0"
      "pixelmatch env a x (Image_new ''RGBA'' (size a)) \<lparr>threshold = 0, diff_mask = True, includeAA = True\<rparr> = Inr (n, d)"
      "0 < n" "save_error env (diff_output_path rel) = None"
      "trace st' = trace st @ [Run c1 (Exited 0), MkdirParent act, Save act a, Print (reference_url href),
                               Run (cmd b (reference_url href)) (Exited 0), MkdirParent ref, Save ref x,
                               Compare a x, Save (diff_output_path rel) d, Log ERROR (fail_message file)]"
      "fs st' (diff_output_path rel) = Some (PngFile d)"
proof (cases rule: process_case_cases[of env w b "file" st])
  case (skip1 st1)
  from skip1(2) show ?thesis
  proof (cases rule: try_render_Continue)
    case timeout
    then show ?thesis using skip1(1) skip1_timeout by (simp add: rel_def c1_def n0_def skip_def)
  next
    case (status n)
    then show ?thesis using skip1(1) skip1_status by (simp add: rel_def c1_def n0_def skip_def)
  qed
next
  case (raise1 e st1)
  then show ?thesis using try_render_Raise[OF raise1(2)] that(3) by (auto simp: rel_def c1_def n0_def)
next
  case (copy1 e st1 st2)
  then show ?thesis
    using try_render_Next[OF copy1(2)] copy_screenshot_Raise[OF copy1(3)] that(4)
    by (auto simp: rel_def c1_def n0_def act_def)
next
  case (nolink st1 a st2 st3)
  note t = try_render_Next[OF nolink(2)] and c = copy_screenshot_Next[OF nolink(3)]
    and r = resolve_reference_Continue[OF nolink(4)]
  show ?thesis
  proof (rule that(5)[of st3 a])
    show "process_case env w b file st = Continue st3" by (rule nolink(1))
    show "exit_of (subprocess env n0 c1) = Exited 0" using t by (simp add: rel_def c1_def n0_def)
    show "soup_find_link env file = Inr None" by (rule r(1))
    show "trace st3 = trace st @ [Run c1 (Exited 0), MkdirParent act, Save act a, skip]"
      using t c r by (simp add: rel_def c1_def n0_def act_def skip_def)
    show "fs st3 act = Some (PngFile a)" using t c r by (simp add: rel_def act_def)
    show "\<And>p. p \<noteq> act \<Longrightarrow> p \<noteq> output_path b \<Longrightarrow> fs st3 p = fs st p"
      using t c r by (simp add: rel_def act_def fs_process_ran)
    show "fs (process_ran env (output_path b) c1 st) (output_path b) = Some (PngFile a)"
      using t c by (simp add: rel_def c1_def)
  qed
next
  case (resolve e st1 a st2 st3)
  note t = try_render_Next[OF resolve(2)] and c = copy_screenshot_Next[OF resolve(3)]
    and r = resolve_reference_Raise[OF resolve(4)]
  show ?thesis
    using resolve(1) t c r that(6)[of e st3 a] by (simp add: rel_def c1_def n0_def act_def)
next
  case (skip2 st1 a st2 u st3 st4)
  note t = try_render_Next[OF skip2(2)] and c = copy_screenshot_Next[OF skip2(3)]
  from resolve_reference_Next[OF skip2(4)] obtain link_tag href where
    r: "soup_find_link env file = Inr (Some link_tag)" "map_of link_tag ''href'' = Some href"
       "u = reference_url href" "st3 = do_event (Print u) st2" by blast
  have n1: "length (filter is_Run (trace st3)) = Suc n0" using t c r by (simp add: n0_def)
  from skip2(5) show ?thesis
  proof (cases rule: try_render_Continue)
    case timeout
    then show ?thesis using skip2(1) t c r n1 that(7)[of st4 link_tag href a]
      by (simp add: rel_def c1_def n0_def act_def skip_def)
  next
    case (status n)
    then show ?thesis using skip2(1) t c r n1 that(8)[of st4 link_tag href n a]
      by (simp add: rel_def c1_def n0_def act_def skip_def)
  qed
next
  case (raise2 e st1 a st2 u st3 st4)
  note t = try_render_Next[OF raise2(2)] and c = copy_screenshot_Next[OF raise2(3)]
  from resolve_reference_Next[OF raise2(4)] obtain link_tag href where
    r: "soup_find_link env file = Inr (Some link_tag)" "map_of link_tag ''href'' = Some href"
       "u = reference_url href" "st3 = do_event (Print u) st2" by blast
  have n1: "length (filter is_Run (trace st3)) = Suc n0" using t c r by (simp add: n0_def)
  from try_render_Raise[OF raise2(5)] obtain msg where
    t2: "exit_of (subprocess env (length (filter is_Run (trace st3))) (cmd b u)) = NotStarted msg" "e = OSError msg"
        "st4 = process_ran env (output_path b) (cmd b u) st3" by blast
  show ?thesis using raise2(1) t c r n1 t2 that(9)[of msg st4 link_tag href a]
    by (simp add: rel_def c1_def n0_def act_def)
next
  case (copy2 e st1 a st2 u st3 st4 st5)
  note t = try_render_Next[OF copy2(2)] and c = copy_screenshot_Next[OF copy2(3)]
  from resolve_reference_Next[OF copy2(4)] obtain link_tag href where
    r: "soup_find_link env file = Inr (Some link_tag)" "map_of link_tag ''href'' = Some href"
       "u = reference_url href" "st3 = do_event (Print u) st2" by blast
  have n1: "length (filter is_Run (trace st3)) = Suc n0" using t c r by (simp add: n0_def)
  note t2 = try_render_Next[OF copy2(5)] and c2 = copy_screenshot_Raise[OF copy2(6)]
  show ?thesis using copy2(1) t c r n1 t2 c2 that(10)[of e st5 link_tag href a]
    by (auto simp: rel_def c1_def n0_def act_def ref_def)
next
  case (report e st1 a st2 u st3 st4 x st5 st6)
  note t = try_render_Next[OF report(2)] and c = copy_screenshot_Next[OF report(3)]
  from resolve_reference_Next[OF report(4)] obtain link_tag href where
    r: "soup_find_link env file = Inr (Some link_tag)" "map_of link_tag ''href'' = Some href"
       "u = reference_url href" "st3 = do_event (Print u) st2" by blast
  have n1: "length (filter is_Run (trace st3)) = Suc n0" using t c r by (simp add: n0_def)
  note t2 = try_render_Next[OF report(5)] and c2 = copy_screenshot_Next[OF report(6)]
    and cr = compare_and_report_Raise[OF report(7)] compare_and_report_Raise_cause[OF report(7)]
  show ?thesis using report(1) t c r n1 t2 c2 cr that(11)[of e st6 link_tag href a x]
    by (simp add: rel_def c1_def n0_def act_def ref_def)
next
  case (verdict st1 a st2 u st3 st4 x st5 st6)
  note t = try_render_Next[OF verdict(2)] and c = copy_screenshot_Next[OF verdict(3)]
  from resolve_reference_Next[OF verdict(4)] obtain link_tag href where
    r: "soup_find_link env file = Inr (Some link_tag)" "map_of link_tag ''href'' = Some href"
       "u = reference_url href" "st3 = do_event (Print u) st2" by blast
  have n1: "length (filter is_Run (trace st3)) = Suc n0" using t c r by (simp add: n0_def)
  note t2 = try_render_Next[OF verdict(5)] and c2 = copy_screenshot_Next[OF verdict(6)]
  from verdict(7) show ?thesis
  proof (cases rule: compare_and_report_Next)
    case (pass n d)
    then show ?thesis using verdict(1) t c r n1 t2 c2 that(12)[of st6 link_tag href a x n d]
      by (simp add: rel_def c1_def n0_def act_def ref_def)
  next
    case (fail n d)
    then show ?thesis using verdict(1) t c r n1 t2 c2 that(13)[of st6 link_tag href a x n d]
      by (simp add: rel_def c1_def n0_def act_def ref_def)
  qed
qed

subsection \<open>What a test case leaves alone\<close>

lemma act_neq_ref: "actual_out_path r \<noteq> expected_out_path r'"
proof
  assume "actual_out_path r = expected_out_path r'"
  then have "rev (r @ ''-act.png'') = rev (r' @ ''-ref.png'')"
    by (simp add: actual_out_path_def expected_out_path_def)
  then show False by simp
qed

lemma act_neq_diff: "actual_out_path r \<noteq> diff_output_path r'"
proof
  assume "actual_out_path r = diff_output_path r'"
  then have "rev (r @ ''-act.png'') = rev (replace_char (CHR 0x5C) ''_'' r' @ ''-diff.png'')"
    by (simp add: actual_out_path_def diff_output_path_def)
  then show False by simp
qed

lemma act_neq_out: "actual_out_path r \<noteq> output_path b"
proof
  assume "actual_out_path r = output_path b"
  then have "rev (''out/'' @ r @ ''-act.png'') = rev (b @ ''/examples/output/localhost800.png'')"
    by (simp add: actual_out_path_def output_path_def)
  then show False by simp
qed

lemma act_inj: "actual_out_path r = actual_out_path r' \<longleftrightarrow> r = r'"
  by (simp add: actual_out_path_def)

lemma then_do_frame:
  assumes "fs (state_of m) p = fs st p"
      and "\<And>x s. fs (state_of (f x s)) p = fs s p"
  shows "fs (state_of (then_do m f)) p = fs st p"
  using assms by (cases m) (simp_all add: then_do_def)

lemma try_render_frame: "p \<noteq> output_path b \<Longrightarrow> fs (state_of (try_render env b c file st)) p = fs st p"
  by (simp add: try_render_eq fs_process_ran split: proc_exit.split)

lemma copy_screenshot_frame: "p \<noteq> dest \<Longrightarrow> fs (state_of (copy_screenshot env b dest st)) p = fs st p"
  by (simp add: copy_screenshot_eq split: option.split disk_file.split)

lemma resolve_reference_frame: "fs (state_of (resolve_reference env file st)) p = fs st p"
  by (simp add: resolve_reference_def split: option.split sum.split)

lemma compare_and_report_frame:
  "p \<noteq> diff_output_path rel \<Longrightarrow> fs (state_of (compare_and_report env file rel a x st)) p = fs st p"
  by (simp add: compare_and_report_eq split: option.split sum.split prod.split)

lemma process_case_frame:
  assumes "p \<noteq> output_path b" "p \<noteq> actual_out_path (relpath env file w)"
      "p \<noteq> expected_out_path (relpath env file w)" "p \<noteq> diff_output_path (relpath env file w)"
  shows "fs (state_of (process_case env w b file st)) p = fs st p"
  unfolding process_case_def Let_def
  by (intro then_do_frame try_render_frame copy_screenshot_frame resolve_reference_frame
        compare_and_report_frame assms)

lemma main_loop_frame:
  assumes "p \<noteq> output_path b"
      and "\<forall>f\<in>set files. \<not> excluded f \<longrightarrow> p \<noteq> actual_out_path (relpath env f w)
             \<and> p \<noteq> expected_out_path (relpath env f w) \<and> p \<noteq> diff_output_path (relpath env f w)"
  shows "fs (snd (main_loop env w b files st)) p = fs st p"
  using assms(2)
proof (induction files arbitrary: st)
  case Nil
  then show ?case by simp
next
  case (Cons f files)
  have step: "fs (state_of (loop_body env w b f st)) p = fs st p"
    using Cons.prems assms(1) by (simp add: loop_body_def process_case_frame)
  show ?case
  proof (cases "loop_body env w b f st")
    case (Next u s)
    then show ?thesis using step Cons by simp
  next
    case (Continue s)
    then show ?thesis using step Cons by simp
  next
    case (Raise e s)
    then show ?thesis using step by simp
  qed
qed

lemma ref_neq_out: "expected_out_path r \<noteq> output_path b"
proof
  assume "expected_out_path r = output_path b"
  then have "rev (''out/'' @ r @ ''-ref.png'') = rev (b @ ''/examples/output/localhost800.png'')"
    by (simp add: expected_out_path_def output_path_def)
  then show False by simp
qed

lemma diff_neq_out: "diff_output_path r \<noteq> output_path b"
proof
  assume "diff_output_path r = output_path b"
  then have "rev (''out/'' @ replace_char (CHR 0x5C) ''_'' r @ ''-diff.png'') = rev (b @ ''/examples/output/localhost800.png'')"
    by (simp add: diff_output_path_def output_path_def)
  then show False by simp
qed

subsection \<open>The loop\<close>

lemma main_loop_append:
  "main_loop env w b (pre @ files) st =
     (case main_loop env w b pre st of
        (None, st') \<Rightarrow> main_loop env w b files st'
      | (Some e, st') \<Rightarrow> (Some e, st'))"
  by (induction pre arbitrary: st) (auto split: flow.split)

lemma process_case_Continue_cause:
  assumes "process_case env w b file st = Continue st'"
  shows "(\<exists>c x. Run c x \<in> set (emitted st st') \<and> (x = TimedOut \<or> (\<exists>n. x = Exited n \<and> n \<noteq> 0)))
       \<or> soup_find_link env file = Inr None"
  using assms by (cases rule: process_case_paths[of env w b "file" st]) auto

lemma process_case_Raise_logged:
  assumes "process_case env w b file st = Raise e st'"
  shows "logged st st' = []"
  using assms by (cases rule: process_case_paths[of env w b "file" st]) (auto simp: logged_append)

lemma process_case_logged:
  "case process_case env w b f st of
     Raise e st' \<Rightarrow> logged st st' = []
   | Continue st' \<Rightarrow> logged st st' = [Log INFO (skip_message f)]
   | Next u st' \<Rightarrow> logged st st' = [Log INFO (pass_message f)] \<or> logged st st' = [Log ERROR (fail_message f)]"
  by (cases rule: process_case_paths[of env w b f st]) (auto simp: logged_append)

lemma main_loop_visit_all: "main_loop env w b files st = visit_all env w b (selected files) st"
proof (induction files arbitrary: st)
  case Nil
  then show ?case by (simp add: selected_def)
next
  case (Cons f files)
  show ?case
  proof (cases "excluded f")
    case True
    then show ?thesis using Cons by (simp add: selected_def loop_body_def)
  next
    case False
    then show ?thesis using Cons
      by (cases "process_case env w b f st") (simp_all add: selected_def loop_body_def)
  qed
qed

lemma count_list_selected:
  "count_list (selected files) f = (if excluded f then 0 else count_list files f)"
  by (induction files) (auto simp: selected_def)

lemma distinct_count_list_1: "distinct xs \<Longrightarrow> x \<in> set xs \<Longrightarrow> count_list xs x = 1"
  by (induction xs) auto

lemma process_case_extends: "\<exists>evs. trace (state_of (process_case env w b file st)) = trace st @ evs"
  by (cases rule: process_case_paths[of env w b "file" st]) auto

lemma logged_trans:
  "trace st' = trace st @ evs \<Longrightarrow> trace st'' = trace st' @ evs' \<Longrightarrow>
   logged st st'' = logged st st' @ logged st' st''"
  by (simp add: logged_def emitted_def)

subsection \<open>Facts about the files visited\<close>

lemma selected_Cons: "selected (f # files) = (if excluded f then [] else [f]) @ selected files"
  by (simp add: selected_def)

lemma visited_prefix: "prefix (visited env w b files st) (selected files)"
proof (induction files arbitrary: st)
  case Nil
  then show ?case by (simp add: selected_def)
next
  case (Cons f files)
  show ?case
    unfolding selected_Cons visited.simps
    by (cases "loop_body env w b f st") (simp_all add: Cons)
qed

lemma visited_not_excluded: "f \<in> set (visited env w b files st) \<Longrightarrow> \<not> excluded f"
proof -
  assume a: "f \<in> set (visited env w b files st)"
  have "set (visited env w b files st) \<subseteq> set (selected files)"
    by (rule set_mono_prefix[OF visited_prefix])
  with a have "f \<in> set (selected files)" by blast
  then show ?thesis by (simp add: selected_def)
qed

lemma visited_complete: "fst (main_loop env w b files st) = None \<Longrightarrow> visited env w b files st = selected files"
proof (induction files arbitrary: st)
  case Nil
  then show ?case by (simp add: selected_def)
next
  case (Cons f files)
  then show ?case
    unfolding selected_Cons
    by (cases "loop_body env w b f st") simp_all
qed

lemma visited_append:
  "visited env w b (pre @ post) st =
     (case main_loop env w b pre st of
        (None, st') \<Rightarrow> visited env w b pre st @ visited env w b post st'
      | (Some e, st') \<Rightarrow> visited env w b pre st)"
proof (induction pre arbitrary: st)
  case Nil
  then show ?case by simp
next
  case (Cons f pre)
  show ?case
    by (cases "loop_body env w b f st") (simp_all add: Cons split: prod.split option.split)
qed

lemma loop_body_extends: "\<exists>evs. trace (state_of (loop_body env w b f st)) = trace st @ evs"
  using process_case_extends[of env w b f st] by (simp add: loop_body_def)

lemma loop_body_logged:
  "case loop_body env w b f st of
     Raise e st' \<Rightarrow> logged st st' = []
   | Continue st' \<Rightarrow> logged st st' = (if excluded f then [] else [Log INFO (skip_message f)])
   | Next u st' \<Rightarrow> \<not> excluded f \<and> (logged st st' = [Log INFO (pass_message f)] \<or> logged st st' = [Log ERROR (fail_message f)])"
proof (cases "excluded f")
  case True
  then show ?thesis by (simp add: loop_body_def logged_def emitted_def)
next
  case False
  then show ?thesis
    using process_case_logged[where env=env and w=w and b=b and f=f and st=st]
    by (cases "process_case env w b f st") (simp_all add: loop_body_def)
qed

lemma main_loop_visited_lines:
  "(\<exists>evs. trace (snd (main_loop env w b files st)) = trace st @ evs)
   \<and> (fst (main_loop env w b files st) \<noteq> None \<longrightarrow> visited env w b files st \<noteq> [])
   \<and> list_all2 verdict_line
        (if fst (main_loop env w b files st) = None then visited env w b files st
         else butlast (visited env w b files st))
        (logged st (snd (main_loop env w b files st)))"
proof (induction files arbitrary: st)
  case Nil
  then show ?case by (simp add: logged_def emitted_def)
next
  case (Cons f files)
  from loop_body_extends obtain evs where e1: "trace (state_of (loop_body env w b f st)) = trace st @ evs"
    by blast
  note lg = loop_body_logged[where env=env and w=w and b=b and f=f and st=st]
  show ?case
  proof (cases "loop_body env w b f st")
    case (Raise e s)
    then show ?thesis using e1 lg by (auto simp: loop_body_def split: if_splits)
  next
    case (Next u s)
    note IH = Cons.IH[of s]
    from IH obtain evs' where e2: "trace (snd (main_loop env w b files s)) = trace s @ evs'" by blast
    have tr: "logged st (snd (main_loop env w b files s)) = logged st s @ logged s (snd (main_loop env w b files s))"
      using e1 e2 Next by (intro logged_trans) auto
    show ?thesis
      using Next IH lg e1 e2
      by (auto simp: tr verdict_line_def butlast_append)
  next
    case (Continue s)
    note IH = Cons.IH[of s]
    from IH obtain evs' where e2: "trace (snd (main_loop env w b files s)) = trace s @ evs'" by blast
    have tr: "logged st (snd (main_loop env w b files s)) = logged st s @ logged s (snd (main_loop env w b files s))"
      using e1 e2 Continue by (intro logged_trans) auto
    show ?thesis
      using Continue IH lg e1 e2
      by (auto simp: tr verdict_line_def butlast_append)
  qed
qed

lemma process_case_runs_first:
  "\<exists>x evs. trace (state_of (process_case env w b f st))
             = trace st @ Run (cmd b (url (relpath env f w))) x # evs"
  by (cases rule: process_case_paths[of env w b f st]) auto

lemma main_loop_extends: "\<exists>evs. trace (snd (main_loop env w b files st)) = trace st @ evs"
  using main_loop_visited_lines[of env w b files st] by blast

lemma visited_ran:
  "f \<in> set (visited env w b files st) \<Longrightarrow>
     \<exists>x. Run (cmd b (url (relpath env f w))) x \<in> set (emitted st (snd (main_loop env w b files st)))"
proof (induction files arbitrary: st)
  case Nil
  then show ?case by simp
next
  case (Cons g files)
  show ?case
  proof (cases "excluded g")
    case True
    then show ?thesis using Cons by (simp add: loop_body_def)
  next
    case False
    then have lb: "loop_body env w b g st = process_case env w b g st"
      by (simp add: loop_body_def)
    from process_case_runs_first obtain x evs where
      t1: "trace (state_of (process_case env w b g st)) = trace st @ Run (cmd b (url (relpath env g w))) x # evs"
      by blast
    show ?thesis
    proof (cases "process_case env w b g st")
      case (Raise e s)
      then show ?thesis using Cons.prems False lb t1 by auto
    next
      case (Next u s)
      from main_loop_extends obtain evs' where
        t2: "trace (snd (main_loop env w b files s)) = trace s @ evs'" by blast
      have ml: "main_loop env w b (g # files) st = main_loop env w b files s"
        using Next lb by simp
      have em: "emitted st (snd (main_loop env w b files s)) = (Run (cmd b (url (relpath env g w))) x # evs) @ evs'"
        using t1 t2 Next by simp
      have em2: "emitted s (snd (main_loop env w b files s)) = evs'"
        using t2 by simp
      from Cons.prems False lb Next have "f = g \<or> f \<in> set (visited env w b files s)" by auto
      then show ?thesis
      proof
        assume "f = g"
        then show ?thesis unfolding ml em by auto
      next
        assume "f \<in> set (visited env w b files s)"
        from Cons.IH[OF this] show ?thesis unfolding ml em em2 by auto
      qed
    next
      case (Continue s)
      from main_loop_extends obtain evs' where
        t2: "trace (snd (main_loop env w b files s)) = trace s @ evs'" by blast
      have ml: "main_loop env w b (g # files) st = main_loop env w b files s"
        using Continue lb by simp
      have em: "emitted st (snd (main_loop env w b files s)) = (Run (cmd b (url (relpath env g w))) x # evs) @ evs'"
        using t1 t2 Continue by simp
      have em2: "emitted s (snd (main_loop env w b files s)) = evs'"
        using t2 by simp
      from Cons.prems False lb Continue have "f = g \<or> f \<in> set (visited env w b files s)" by auto
      then show ?thesis
      proof
        assume "f = g"
        then show ?thesis unfolding ml em by auto
      next
        assume "f \<in> set (visited env w b files s)"
        from Cons.IH[OF this] show ?thesis unfolding ml em em2 by auto
      qed
    qed
  qed
qed

subsection \<open>A test without a link\<close>



subsection \<open>Unfolding a run of the sample environment\<close>

lemmas model_defs = main_def makedirs_def rmtree_def loop_body_def excluded_def process_case_def
  try_render_def subprocess_run_def process_ran_def store_def do_event_def then_do_def
  copy_screenshot_def mkdir_parent_def Image_open_def Image_save_def resolve_reference_def
  compare_and_report_def create_diff_image_or_none_def Image_new_def
  logger_info_def logger_error_def logging_error_def
  output_path_def fail_message_def pass_message_def skip_message_def url_def reference_url_def cmd_def
  actual_out_path_def expected_out_path_def diff_output_path_def replace_char_def
  emitted_def logged_def Let_def suffix_to_prefix sublist_code(3)

lemmas sample_defs = sample_env_def empty_state_def renders_same_def renders_different_def
  renders_nothing_def renders_garbage_def times_out_def with_link_def without_link_def unreadable_def
  two_tests_def sample_pixelmatch_def white_def black_def

section \<open>Properties of the harness\<close>

text \<open>
  C1.  The comparison reports Equal (\<open>create_diff_image_or_none\<close> returns \<open>None\<close>) if
  and only if the pixel matcher, called with threshold 0, anti-aliased pixels included and
  a mask-only diff, reports a mismatched-pixel count of zero.  The count is a number of
  pixels, so it is not negative.  When the count is zero (as the matcher reports for two
  identical images) the report block logs PASS and writes nothing: the file system is the
  one it started from.  When the count is not zero the diff image the matcher drew is saved
  and FAIL is logged.
\<close>

theorem equal_iff_no_mismatched_pixel:
  assumes "pixelmatch env img1 img2 (Image_new ''RGBA'' (size img1))
             \<lparr>threshold = 0, diff_mask = True, includeAA = True\<rparr> = Inr (n, d)"
      and "0 \<le> n"
  shows "(create_diff_image_or_none env img1 img2 = Inr None \<longleftrightarrow> n = 0)
       \<and> (n \<noteq> 0 \<longrightarrow> create_diff_image_or_none env img1 img2 = Inr (Some d))
       \<and> (n = 0 \<longrightarrow>
            (\<exists>st'. compare_and_report env file rel img1 img2 st = Next () st'
                  \<and> emitted st st' = [Compare img1 img2, Log INFO (pass_message file)]
                  \<and> fs st' = fs st))
       \<and> (n \<noteq> 0 \<longrightarrow> save_error env (diff_output_path rel) = None \<longrightarrow>
            (\<exists>st'. compare_and_report env file rel img1 img2 st = Next () st'
                  \<and> emitted st st' = [Compare img1 img2, Save (diff_output_path rel) d,
                                       Log ERROR (fail_message file)]))"
  using assms by (auto simp: create_diff_image_or_none_def compare_and_report_eq)

theorem equal_iff_no_mismatched_pixel_witness:
  "pixelmatch (sample_env renders_same with_link) white white (Image_new ''RGBA'' (size white))
       \<lparr>threshold = 0, diff_mask = True, includeAA = True\<rparr> = Inr (0, Image ''RGBA'' (1, 1) [(0, 0, 0, 0)])
   \<and> create_diff_image_or_none (sample_env renders_same with_link) white white = Inr None
   \<and> (\<exists>st'. compare_and_report (sample_env renders_same with_link) ''/wpt/css/css-flexbox/foo.html''
               ''css/css-flexbox/foo.html'' white white empty_state = Next () st'
           \<and> emitted empty_state st' = [Compare white white, Log INFO (pass_message ''/wpt/css/css-flexbox/foo.html'')]
           \<and> fs st' = fs empty_state)"
proof -
  have h: "pixelmatch (sample_env renders_same with_link) white white (Image_new ''RGBA'' (size white))
       \<lparr>threshold = 0, diff_mask = True, includeAA = True\<rparr> = Inr (0, Image ''RGBA'' (1, 1) [(0, 0, 0, 0)])"
    by (simp add: sample_env_def sample_pixelmatch_def white_def Image_new_def)
  have z: "(0::int) \<le> 0" by simp
  from equal_iff_no_mismatched_pixel[OF h z, of "''/wpt/css/css-flexbox/foo.html''" "''css/css-flexbox/foo.html''" empty_state]
    h show ?thesis by simp
qed

text \<open>
  C2, counterexample.  The specification has every match of the glob pattern that the
  filter lets through visited exactly once.  Let glob list \<open>foo.html\<close> and then
  \<open>bar.html\<close>, and let the renderer exit with status 0 without leaving a screenshot.
  The copy of the screenshot of \<open>foo.html\<close> (line 99) ends the program in
  \<open>FileNotFoundError\<close>: the renderer has been run once, for \<open>foo.html\<close>, and
  \<open>bar.html\<close>, which the filter does not exclude, is never visited.
\<close>

theorem enumerator_stops_at_exception_counterexample:
  "glob (two_tests (sample_env renders_nothing with_link)) ''/wpt/css/css-flexbox/**/*.html''
       = [''/wpt/css/css-flexbox/foo.html'', ''/wpt/css/css-flexbox/bar.html'']
   \<and> \<not> (suffix ''-ref.html'' ''/wpt/css/css-flexbox/bar.html''
         \<or> suffix ''.tentative.html'' ''/wpt/css/css-flexbox/bar.html''
         \<or> sublist ''reference'' ''/wpt/css/css-flexbox/bar.html'')
   \<and> fst (main (two_tests (sample_env renders_nothing with_link)) empty_state)
       = Some (FileNotFoundError ''/blitz/examples/output/localhost800.png'')
   \<and> trace (snd (main (two_tests (sample_env renders_nothing with_link)) empty_state))
       = [Makedirs ''out'',
          Run (cmd ''/blitz'' ''http://localhost:8000/css/css-flexbox/foo.html'') (Exited 0),
          MkdirParent ''out/css/css-flexbox/foo.html-act.png'']
   \<and> visited (two_tests (sample_env renders_nothing with_link)) ''/wpt'' ''/blitz''
        [''/wpt/css/css-flexbox/foo.html'', ''/wpt/css/css-flexbox/bar.html'']
        (do_event (Makedirs ''out'') (rmtree ''out'' empty_state))
       = [''/wpt/css/css-flexbox/foo.html'']"
  by (simp add: model_defs sample_defs)

text \<open>
  C2, amended.  A file whose name ends in \<open>-ref.html\<close> or in \<open>.tentative.html\<close>, or
  whose path contains \<open>reference\<close>, is never visited as a test case.  The files visited
  are an initial part of the matches the filter lets through, in the order of the
  listing, so none is visited more often than glob lists it, and none twice when the
  listing has no duplicates.  A match that the filter lets through is visited when no
  test case before it has ended in an uncaught exception (C8); once a test case has ended
  in one, the run is over and no later match is visited.  Hence in a run that ends without
  an uncaught exception every such match is visited as often as glob lists it, exactly once
  for a listing without duplicates.  The lines logged are one verdict line for each file
  visited, in order, except for the file that ended the run in an exception, and for each
  file visited the renderer has been run on the page of that file.  The loop is
  the processing, in order, of the selected matches up to the first exception, and the
  matches are those of \<open>WPT_DIR/css/css-flexbox/**/*.html\<close>.
\<close>

theorem enumerator_visits_until_exception:
  "(\<forall>f. suffix ''-ref.html'' f \<or> suffix ''.tentative.html'' f \<or> sublist ''reference'' f
         \<longrightarrow> f \<notin> set (visited env w b files st))
   \<and> prefix (visited env w b files st) (selected files)
   \<and> (distinct files \<longrightarrow> distinct (visited env w b files st))
   \<and> (fst (main_loop env w b files st) = None \<longrightarrow>
        visited env w b files st = selected files
        \<and> (\<forall>f\<in>set files. \<not> (suffix ''-ref.html'' f \<or> suffix ''.tentative.html'' f \<or> sublist ''reference'' f)
              \<longrightarrow> count_list (visited env w b files st) f = count_list files f)
        \<and> (distinct files \<longrightarrow>
             (\<forall>f\<in>set files. \<not> (suffix ''-ref.html'' f \<or> suffix ''.tentative.html'' f \<or> sublist ''reference'' f)
                \<longrightarrow> count_list (visited env w b files st) f = 1)))
   \<and> (fst (main_loop env w b pre st) = None \<longrightarrow>
        \<not> (suffix ''-ref.html'' file \<or> suffix ''.tentative.html'' file \<or> sublist ''reference'' file) \<longrightarrow>
        file \<in> set (visited env w b (pre @ file # post) st))
   \<and> (fst (main_loop env w b pre st) \<noteq> None \<longrightarrow>
        visited env w b (pre @ post) st = visited env w b pre st
        \<and> main_loop env w b (pre @ post) st = main_loop env w b pre st)
   \<and> list_all2 verdict_line
        (if fst (main_loop env w b files st) = None then visited env w b files st
         else butlast (visited env w b files st))
        (logged st (snd (main_loop env w b files st)))
   \<and> (\<forall>f\<in>set (visited env w b files st).
          \<exists>x. Run (cmd b (url (relpath env f w))) x \<in> set (emitted st (snd (main_loop env w b files st))))
   \<and> main_loop env w b files st = visit_all env w b (selected files) st
   \<and> (getenv env ''WPT_DIR'' = Some w \<longrightarrow> getenv env ''BLITZ_REPO'' = Some b \<longrightarrow> mkdir_error env ''out'' = None \<longrightarrow>
        main env st = main_loop env w b (glob env (w @ ''/css/css-flexbox/**/*.html''))
                        (do_event (Makedirs ''out'') (rmtree ''out'' st)))"
proof -
  have 1: "\<forall>f. suffix ''-ref.html'' f \<or> suffix ''.tentative.html'' f \<or> sublist ''reference'' f
         \<longrightarrow> f \<notin> set (visited env w b files st)"
    using visited_not_excluded[of _ env w b files st] by (auto simp: excluded_def)
  have 2: "prefix (visited env w b files st) (selected files)"
    by (rule visited_prefix)
  have 3: "distinct files \<longrightarrow> distinct (visited env w b files st)"
  proof
    assume "distinct files"
    then have "distinct (selected files)" by (simp add: selected_def)
    with 2 show "distinct (visited env w b files st)"
      by (auto simp: prefix_def)
  qed
  have 4: "fst (main_loop env w b files st) = None \<longrightarrow>
        visited env w b files st = selected files
        \<and> (\<forall>f\<in>set files. \<not> (suffix ''-ref.html'' f \<or> suffix ''.tentative.html'' f \<or> sublist ''reference'' f)
              \<longrightarrow> count_list (visited env w b files st) f = count_list files f)
        \<and> (distinct files \<longrightarrow>
             (\<forall>f\<in>set files. \<not> (suffix ''-ref.html'' f \<or> suffix ''.tentative.html'' f \<or> sublist ''reference'' f)
                \<longrightarrow> count_list (visited env w b files st) f = 1))"
    by (simp add: visited_complete count_list_selected excluded_def distinct_count_list_1)
  have 5: "fst (main_loop env w b pre st) = None \<longrightarrow>
        \<not> (suffix ''-ref.html'' file \<or> suffix ''.tentative.html'' file \<or> sublist ''reference'' file) \<longrightarrow>
        file \<in> set (visited env w b (pre @ file # post) st)"
    by (cases "main_loop env w b pre st") (auto simp: visited_append excluded_def)
  have 6: "fst (main_loop env w b pre st) \<noteq> None \<longrightarrow>
        visited env w b (pre @ post) st = visited env w b pre st
        \<and> main_loop env w b (pre @ post) st = main_loop env w b pre st"
    by (cases "main_loop env w b pre st") (auto simp: visited_append main_loop_append)
  have 7: "list_all2 verdict_line
        (if fst (main_loop env w b files st) = None then visited env w b files st
         else butlast (visited env w b files st))
        (logged st (snd (main_loop env w b files st)))"
    using main_loop_visited_lines[of env w b files st] by blast
  have 10: "\<forall>f\<in>set (visited env w b files st).
          \<exists>x. Run (cmd b (url (relpath env f w))) x \<in> set (emitted st (snd (main_loop env w b files st)))"
    using visited_ran[of _ env w b files st] by blast
  have 8: "main_loop env w b files st = visit_all env w b (selected files) st"
    by (rule main_loop_visit_all)
  have 9: "getenv env ''WPT_DIR'' = Some w \<longrightarrow> getenv env ''BLITZ_REPO'' = Some b \<longrightarrow> mkdir_error env ''out'' = None \<longrightarrow>
        main env st = main_loop env w b (glob env (w @ ''/css/css-flexbox/**/*.html''))
                        (do_event (Makedirs ''out'') (rmtree ''out'' st))"
    by (simp add: main_def makedirs_def)
  show ?thesis
    by (intro conjI 1 2 3 4 5 6 7 10 8 9)
qed

theorem enumerator_visits_until_exception_witness:
  "suffix ''-ref.html'' ''/wpt/css/css-flexbox/foo-ref.html''
   \<and> distinct [''/wpt/css/css-flexbox/foo.html'', ''/wpt/css/css-flexbox/foo-ref.html'', ''/wpt/css/css-flexbox/bar.html'']
   \<and> fst (main_loop (sample_env renders_same with_link) ''/wpt'' ''/blitz''
        [''/wpt/css/css-flexbox/foo.html'', ''/wpt/css/css-flexbox/foo-ref.html'', ''/wpt/css/css-flexbox/bar.html'']
        empty_state) = None
   \<and> ''/wpt/css/css-flexbox/foo-ref.html''
        \<notin> set (visited (sample_env renders_same with_link) ''/wpt'' ''/blitz''
                 [''/wpt/css/css-flexbox/foo.html'', ''/wpt/css/css-flexbox/foo-ref.html'', ''/wpt/css/css-flexbox/bar.html'']
                 empty_state)
   \<and> visited (sample_env renders_same with_link) ''/wpt'' ''/blitz''
        [''/wpt/css/css-flexbox/foo.html'', ''/wpt/css/css-flexbox/foo-ref.html'', ''/wpt/css/css-flexbox/bar.html'']
        empty_state
       = [''/wpt/css/css-flexbox/foo.html'', ''/wpt/css/css-flexbox/bar.html'']
   \<and> distinct (visited (sample_env renders_same with_link) ''/wpt'' ''/blitz''
        [''/wpt/css/css-flexbox/foo.html'', ''/wpt/css/css-flexbox/foo-ref.html'', ''/wpt/css/css-flexbox/bar.html'']
        empty_state)"
proof -
  have r: "suffix ''-ref.html'' ''/wpt/css/css-flexbox/foo-ref.html''"
    by (simp add: suffix_to_prefix)
  have d: "distinct [''/wpt/css/css-flexbox/foo.html'', ''/wpt/css/css-flexbox/foo-ref.html'', ''/wpt/css/css-flexbox/bar.html'']"
    by simp
  have n: "fst (main_loop (sample_env renders_same with_link) ''/wpt'' ''/blitz''
        [''/wpt/css/css-flexbox/foo.html'', ''/wpt/css/css-flexbox/foo-ref.html'', ''/wpt/css/css-flexbox/bar.html'']
        empty_state) = None"
    by (simp add: model_defs sample_defs)
  have s: "selected [''/wpt/css/css-flexbox/foo.html'', ''/wpt/css/css-flexbox/foo-ref.html'', ''/wpt/css/css-flexbox/bar.html'']
       = [''/wpt/css/css-flexbox/foo.html'', ''/wpt/css/css-flexbox/bar.html'']"
    by (simp add: selected_def excluded_def suffix_to_prefix sublist_code(3))
  from enumerator_visits_until_exception[where env="sample_env renders_same with_link" and w="''/wpt''" and b="''/blitz''"
      and files="[''/wpt/css/css-flexbox/foo.html'', ''/wpt/css/css-flexbox/foo-ref.html'', ''/wpt/css/css-flexbox/bar.html'']"
      and st=empty_state]
    r d n s show ?thesis by simp
qed






text \<open>
  C5.  For a test with a matching link element, the URL of the reference is the fixed base
  \<open>http://localhost:8000/css/css-flexbox/\<close> followed by the \<open>href\<close> value as it stands:
  no relative URL is resolved.  The renderer is only ever run on the URL of the test and
  on that URL, and two tests (in any directories, in any environments) whose links have
  the same \<open>href\<close> get the same reference URL.
\<close>

theorem reference_url_is_base_plus_href:
  assumes "soup_find_link env file = Inr (Some link_tag)"
      and "map_of link_tag ''href'' = Some href_value"
  shows "value_of (resolve_reference env file s) = Some (''http://localhost:8000/css/css-flexbox/'' @ href_value)
       \<and> (\<forall>c x. Run c x \<in> set (emitted st (state_of (process_case env w b file st))) \<longrightarrow>
              c = cmd b (''http://localhost:8000/'' @ relpath env file w)
            \<or> c = cmd b (''http://localhost:8000/css/css-flexbox/'' @ href_value))
       \<and> (\<forall>env' file' s' link_tag'.
              soup_find_link env' file' = Inr (Some link_tag') \<longrightarrow> map_of link_tag' ''href'' = Some href_value \<longrightarrow>
              value_of (resolve_reference env' file' s') = value_of (resolve_reference env file s))"
proof -
  have 1: "value_of (resolve_reference env' file' s') = Some (''http://localhost:8000/css/css-flexbox/'' @ href_value)"
    if "soup_find_link env' file' = Inr (Some link_tag')" "map_of link_tag' ''href'' = Some href_value"
    for env' file' s' link_tag'
    using that by (simp add: resolve_reference_def reference_url_def)
  have 2: "\<forall>c x. Run c x \<in> set (emitted st (state_of (process_case env w b file st))) \<longrightarrow>
              c = cmd b (''http://localhost:8000/'' @ relpath env file w)
            \<or> c = cmd b (''http://localhost:8000/css/css-flexbox/'' @ href_value)"
    using assms
    by (cases rule: process_case_paths[of env w b "file" st]) (auto simp: url_def reference_url_def)
  show ?thesis using 1[OF assms] 1 2 by simp
qed

theorem reference_url_is_base_plus_href_witness:
  "soup_find_link (sample_env renders_same with_link) ''/wpt/css/css-flexbox/foo.html''
       = Inr (Some [(''rel'', ''match''), (''href'', ''foo-ref.html'')])
   \<and> map_of [(''rel'', ''match''), (''href'', ''foo-ref.html'')] ''href'' = Some ''foo-ref.html''
   \<and> value_of (resolve_reference (sample_env renders_same with_link) ''/wpt/css/css-flexbox/foo.html'' empty_state)
       = Some ''http://localhost:8000/css/css-flexbox/foo-ref.html''"
proof -
  have h: "soup_find_link (sample_env renders_same with_link) ''/wpt/css/css-flexbox/foo.html''
       = Inr (Some [(''rel'', ''match''), (''href'', ''foo-ref.html'')])"
    by (simp add: sample_env_def with_link_def)
  have m: "map_of [(''rel'', ''match''), (''href'', ''foo-ref.html'')] ''href'' = Some ''foo-ref.html''"
    by simp
  from reference_url_is_base_plus_href[OF h m, of empty_state empty_state "''/wpt''" "''/blitz''"]
    h m show ?thesis by simp
qed

text \<open>
  C6.  The specification has a failing test log one FAIL line and persist its diff image
  at a path in one directory level, the separators of the relative path replaced by a flat
  character: \<open>out/css_css-flexbox_foo.html-diff.png\<close> for the test
  \<open>css/css-flexbox/foo.html\<close>.  In the run of that test, its two screenshots differing
  in their one pixel, the one FAIL line is logged, but nothing is written to that path:
  the diff image is at \<open>out/css/css-flexbox/foo.html-diff.png\<close>, below the directories
  of the test.  Line 137 replaces backslashes only, so the forward slashes of the relative
  path are kept; only a relative path written with backslashes is flattened.
\<close>

theorem diff_path_not_flat:
  "relpath (sample_env renders_different with_link) ''/wpt/css/css-flexbox/foo.html'' ''/wpt'' = ''css/css-flexbox/foo.html''
   \<and> logged empty_state (snd (main (sample_env renders_different with_link) empty_state))
       = [Log ERROR ''FAIL: /wpt/css/css-flexbox/foo.html'']
   \<and> fs (snd (main (sample_env renders_different with_link) empty_state)) ''out/css_css-flexbox_foo.html-diff.png'' = None
   \<and> fs (snd (main (sample_env renders_different with_link) empty_state)) ''out/css/css-flexbox/foo.html-diff.png''
       = Some (PngFile (Image ''RGBA'' (1, 1) [(255, 0, 0, 255)]))
   \<and> diff_output_path ''css/css-flexbox/foo.html'' = ''out/css/css-flexbox/foo.html-diff.png''
   \<and> diff_output_path [CHR ''c'', CHR ''s'', CHR ''s'', CHR 0x5C, CHR ''f'', CHR ''o'', CHR ''o''] = ''out/css_foo-diff.png''"
  by (simp add: model_defs sample_defs)

text \<open>
  C7, counterexample.  The specification has the one log line of a test carry the
  relative path of the test.  In the run of the sample test with equal screenshots the
  relative path is \<open>css/css-flexbox/foo.html\<close> and the line logged is
  \<open>PASS: /wpt/css/css-flexbox/foo.html\<close>: the messages of lines 76 to 78 are built from
  the path glob returned, which starts with \<open>WPT_DIR\<close>.  And in the run where the
  renderer succeeds without leaving a screenshot, the test is processed, the program ends
  in \<open>FileNotFoundError\<close>, and no line is logged for it.
\<close>

theorem log_line_relative_path_counterexample:
  "logged empty_state (snd (main (sample_env renders_same with_link) empty_state))
       = [Log INFO ''PASS: /wpt/css/css-flexbox/foo.html'']
   \<and> relpath (sample_env renders_same with_link) ''/wpt/css/css-flexbox/foo.html'' ''/wpt'' = ''css/css-flexbox/foo.html''
   \<and> logged empty_state (snd (main (sample_env renders_same with_link) empty_state))
       \<noteq> [Log INFO (''PASS: '' @ ''css/css-flexbox/foo.html'')]
   \<and> fst (main (sample_env renders_nothing with_link) empty_state)
       = Some (FileNotFoundError ''/blitz/examples/output/localhost800.png'')
   \<and> logged empty_state (snd (main (sample_env renders_nothing with_link) empty_state)) = []"
  by (simp add: model_defs sample_defs)

text \<open>
  C7, amended.  For every processed (non-excluded) test case that does not end in an
  uncaught exception, exactly one log line is emitted, classified PASS, FAIL or SKIP, and
  that line carries the path of the test file as glob listed it (the path that starts with
  the root directory), not the relative path: the case that ends in \<open>continue\<close> logs the
  SKIP line, the case that reaches the end of the body logs the PASS or the FAIL line.  A
  case that ends in an uncaught exception logs nothing.
\<close>

theorem one_log_line_per_case:
  assumes "\<not> (suffix ''-ref.html'' file \<or> suffix ''.tentative.html'' file \<or> sublist ''reference'' file)"
  shows "case loop_body env w b file st of
           Raise e st' \<Rightarrow> logged st st' = []
         | Continue st' \<Rightarrow> logged st st' = [Log INFO (''SKIP: '' @ file)]
         | Next u st' \<Rightarrow> logged st st' = [Log INFO (''PASS: '' @ file)]
                        \<or> logged st st' = [Log ERROR (''FAIL: '' @ file)]"
proof -
  have "loop_body env w b file st = process_case env w b file st"
    using assms by (simp add: loop_body_def excluded_def)
  then show ?thesis
    using process_case_logged[where env=env and w=w and b=b and f="file" and st=st]
    unfolding skip_message_def pass_message_def fail_message_def by simp
qed

theorem one_log_line_per_case_witness:
  "\<not> (suffix ''-ref.html'' ''/wpt/css/css-flexbox/foo.html''
       \<or> suffix ''.tentative.html'' ''/wpt/css/css-flexbox/foo.html''
       \<or> sublist ''reference'' ''/wpt/css/css-flexbox/foo.html'')
   \<and> (case loop_body (sample_env renders_same with_link) ''/wpt'' ''/blitz'' ''/wpt/css/css-flexbox/foo.html'' empty_state of
         Raise e st' \<Rightarrow> logged empty_state st' = []
       | Continue st' \<Rightarrow> logged empty_state st' = [Log INFO (''SKIP: '' @ ''/wpt/css/css-flexbox/foo.html'')]
       | Next u st' \<Rightarrow> logged empty_state st' = [Log INFO (''PASS: '' @ ''/wpt/css/css-flexbox/foo.html'')]
                      \<or> logged empty_state st' = [Log ERROR (''FAIL: '' @ ''/wpt/css/css-flexbox/foo.html'')])"
proof -
  have t: "\<not> (suffix ''-ref.html'' ''/wpt/css/css-flexbox/foo.html''
         \<or> suffix ''.tentative.html'' ''/wpt/css/css-flexbox/foo.html''
         \<or> sublist ''reference'' ''/wpt/css/css-flexbox/foo.html'')"
    by (simp add: suffix_to_prefix sublist_code(3))
  from one_log_line_per_case[where env="sample_env renders_same with_link" and w="''/wpt''" and b="''/blitz''"
      and st=empty_state, OF t]
    t show ?thesis by blast
qed

text \<open>
  C8.  Within a test case only the renderer's timeout and its non-zero exit are caught: a
  render block ends in \<open>continue\<close> only after one of these, and a case ends in
  \<open>continue\<close> only after such an invocation or when the link is missing.  Every other
  error is an exception of the block it happens in: a renderer that cannot be started,
  directories that cannot be created, a screenshot that is missing or is not an image, an
  artifact (a screenshot or the diff image) that cannot be written, a test file that
  cannot be read or parsed, a link without \<open>href\<close>, a failure of the pixel matcher.
  No block catches the exception of another: an exception raised by any of the six blocks
  of the body, the blocks before it having completed, is the exception the body ends in,
  with the state the block left.  The case then logs nothing, and the loop, wherever in the
  listing the case stands, ends at once with that exception: no later file is processed.
  For the errors of the first three blocks this is stated from the environment alone: the
  run of the loop over a listing that starts with the test ends with the error named.
\<close>

theorem unhandled_error_aborts_run:
  fixes env "file" w b st c1 st1 act
  defines "c1 \<equiv> cmd b (url (relpath env file w))"
      and "st1 \<equiv> process_ran env (output_path b) c1 st"
      and "act \<equiv> actual_out_path (relpath env file w)"
  shows "(loop_body env w b file st = Raise e st' \<longrightarrow>
            logged st st' = [] \<and> main_loop env w b (file # files) st = (Some e, st'))
       \<and> (fst (main_loop env w b pre st0) = None \<longrightarrow>
            loop_body env w b file (snd (main_loop env w b pre st0)) = Raise e st' \<longrightarrow>
            main_loop env w b (pre @ file # files) st0 = (Some e, st'))
       \<and> (loop_body env w b file st = Continue st' \<longrightarrow> \<not> excluded file \<longrightarrow>
            (\<exists>c x. Run c x \<in> set (emitted st st') \<and> (x = TimedOut \<or> (\<exists>n. x = Exited n \<and> n \<noteq> 0)))
            \<or> soup_find_link env file = Inr None)
       \<and> (\<not> excluded file \<longrightarrow>
            (try_render env b c1 file st = Raise e s1 \<longrightarrow> loop_body env w b file st = Raise e s1)
          \<and> (try_render env b c1 file st = Next () s1 \<longrightarrow>
               (copy_screenshot env b act s1 = Raise e s2 \<longrightarrow> loop_body env w b file st = Raise e s2)
             \<and> (copy_screenshot env b act s1 = Next a s2 \<longrightarrow>
                  (resolve_reference env file s2 = Raise e s3 \<longrightarrow> loop_body env w b file st = Raise e s3)
                \<and> (resolve_reference env file s2 = Next u s3 \<longrightarrow>
                     (try_render env b (cmd b u) file s3 = Raise e s4 \<longrightarrow> loop_body env w b file st = Raise e s4)
                   \<and> (try_render env b (cmd b u) file s3 = Next () s4 \<longrightarrow>
                        (copy_screenshot env b (expected_out_path (relpath env file w)) s4 = Raise e s5 \<longrightarrow>
                           loop_body env w b file st = Raise e s5)
                      \<and> (copy_screenshot env b (expected_out_path (relpath env file w)) s4 = Next x s5 \<longrightarrow>
                           compare_and_report env file (relpath env file w) a x s5 = Raise e s6 \<longrightarrow>
                           loop_body env w b file st = Raise e s6))))))
       \<and> (\<not> excluded file \<longrightarrow>
            (exit_of (subprocess env (length (filter is_Run (trace st))) c1) = NotStarted msg \<longrightarrow>
               main_loop env w b (file # files) st = (Some (OSError msg), st1))
          \<and> (exit_of (subprocess env (length (filter is_Run (trace st))) c1) = Exited 0 \<longrightarrow>
               (mkdir_error env act = Some e \<longrightarrow> main_loop env w b (file # files) st = (Some e, st1))
             \<and> (mkdir_error env act = None \<longrightarrow>
                  (fs st1 (output_path b) = None \<longrightarrow>
                     main_loop env w b (file # files) st
                       = (Some (FileNotFoundError (output_path b)), do_event (MkdirParent act) st1))
                \<and> (fs st1 (output_path b) = Some OtherFile \<longrightarrow>
                     main_loop env w b (file # files) st
                       = (Some (UnidentifiedImageError (output_path b)), do_event (MkdirParent act) st1))
                \<and> (fs st1 (output_path b) = Some (PngFile img) \<longrightarrow>
                     (save_error env act = Some e \<longrightarrow>
                        main_loop env w b (file # files) st = (Some e, do_event (MkdirParent act) st1))
                   \<and> (save_error env act = None \<longrightarrow>
                        (soup_find_link env file = Inl e \<longrightarrow>
                           main_loop env w b (file # files) st
                             = (Some e, do_event (Save act img) (store act (PngFile img) (do_event (MkdirParent act) st1))))
                      \<and> (soup_find_link env file = Inr (Some link_tag) \<longrightarrow> map_of link_tag ''href'' = None \<longrightarrow>
                           main_loop env w b (file # files) st
                             = (Some (KeyError ''href''),
                                do_event (Save act img) (store act (PngFile img) (do_event (MkdirParent act) st1)))))))))
       \<and> (try_render env b c file s = Continue s' \<longrightarrow>
            exit_of (subprocess env (length (filter is_Run (trace s))) c) = TimedOut
          \<or> (\<exists>n. exit_of (subprocess env (length (filter is_Run (trace s))) c) = Exited n \<and> n \<noteq> 0))
       \<and> (exit_of (subprocess env (length (filter is_Run (trace s))) c) = NotStarted msg \<longrightarrow>
            try_render env b c file s = Raise (OSError msg) (process_ran env (output_path b) c s))
       \<and> (mkdir_error env dest = Some e \<longrightarrow> copy_screenshot env b dest s = Raise e s)
       \<and> (mkdir_error env dest = None \<longrightarrow> fs s (output_path b) = None \<longrightarrow>
            copy_screenshot env b dest s = Raise (FileNotFoundError (output_path b)) (do_event (MkdirParent dest) s))
       \<and> (mkdir_error env dest = None \<longrightarrow> fs s (output_path b) = Some OtherFile \<longrightarrow>
            copy_screenshot env b dest s = Raise (UnidentifiedImageError (output_path b)) (do_event (MkdirParent dest) s))
       \<and> (mkdir_error env dest = None \<longrightarrow> fs s (output_path b) = Some (PngFile img) \<longrightarrow> save_error env dest = Some e \<longrightarrow>
            copy_screenshot env b dest s = Raise e (do_event (MkdirParent dest) s))
       \<and> (soup_find_link env file = Inl e \<longrightarrow> resolve_reference env file s = Raise e s)
       \<and> (soup_find_link env file = Inr (Some link_tag) \<longrightarrow> map_of link_tag ''href'' = None \<longrightarrow>
            resolve_reference env file s = Raise (KeyError ''href'') s)
       \<and> (pixelmatch env a x (Image_new ''RGBA'' (size a)) \<lparr>threshold = 0, diff_mask = True, includeAA = True\<rparr> = Inl e \<longrightarrow>
            compare_and_report env file rel a x s = Raise e (do_event (Compare a x) s))
       \<and> (pixelmatch env a x (Image_new ''RGBA'' (size a)) \<lparr>threshold = 0, diff_mask = True, includeAA = True\<rparr> = Inr (n, d) \<longrightarrow>
            0 < n \<longrightarrow> save_error env (diff_output_path rel) = Some e \<longrightarrow>
            compare_and_report env file rel a x s = Raise e (do_event (Compare a x) s))"
proof -
  have A: "loop_body env w b file st = Raise e st' \<longrightarrow>
            logged st st' = [] \<and> main_loop env w b (file # files) st = (Some e, st')"
    by (auto simp: loop_body_def process_case_Raise_logged split: if_splits)
  have B: "fst (main_loop env w b pre st0) = None \<longrightarrow>
            loop_body env w b file (snd (main_loop env w b pre st0)) = Raise e st' \<longrightarrow>
            main_loop env w b (pre @ file # files) st0 = (Some e, st')"
    by (cases "main_loop env w b pre st0") (auto simp: main_loop_append)
  have C: "loop_body env w b file st = Continue st' \<longrightarrow> \<not> excluded file \<longrightarrow>
            (\<exists>c x. Run c x \<in> set (emitted st st') \<and> (x = TimedOut \<or> (\<exists>n. x = Exited n \<and> n \<noteq> 0)))
            \<or> soup_find_link env file = Inr None"
    using process_case_Continue_cause[of env w b "file" st st'] by (auto simp: loop_body_def)
  have P: "\<not> excluded file \<longrightarrow>
            (try_render env b c1 file st = Raise e s1 \<longrightarrow> loop_body env w b file st = Raise e s1)
          \<and> (try_render env b c1 file st = Next () s1 \<longrightarrow>
               (copy_screenshot env b act s1 = Raise e s2 \<longrightarrow> loop_body env w b file st = Raise e s2)
             \<and> (copy_screenshot env b act s1 = Next a s2 \<longrightarrow>
                  (resolve_reference env file s2 = Raise e s3 \<longrightarrow> loop_body env w b file st = Raise e s3)
                \<and> (resolve_reference env file s2 = Next u s3 \<longrightarrow>
                     (try_render env b (cmd b u) file s3 = Raise e s4 \<longrightarrow> loop_body env w b file st = Raise e s4)
                   \<and> (try_render env b (cmd b u) file s3 = Next () s4 \<longrightarrow>
                        (copy_screenshot env b (expected_out_path (relpath env file w)) s4 = Raise e s5 \<longrightarrow>
                           loop_body env w b file st = Raise e s5)
                      \<and> (copy_screenshot env b (expected_out_path (relpath env file w)) s4 = Next x s5 \<longrightarrow>
                           compare_and_report env file (relpath env file w) a x s5 = Raise e s6 \<longrightarrow>
                           loop_body env w b file st = Raise e s6)))))"
    by (simp add: loop_body_def process_case_def then_do_def Let_def c1_def act_def)
  have Q: "\<not> excluded file \<longrightarrow>
            (exit_of (subprocess env (length (filter is_Run (trace st))) c1) = NotStarted msg \<longrightarrow>
               main_loop env w b (file # files) st = (Some (OSError msg), st1))
          \<and> (exit_of (subprocess env (length (filter is_Run (trace st))) c1) = Exited 0 \<longrightarrow>
               (mkdir_error env act = Some e \<longrightarrow> main_loop env w b (file # files) st = (Some e, st1))
             \<and> (mkdir_error env act = None \<longrightarrow>
                  (fs st1 (output_path b) = None \<longrightarrow>
                     main_loop env w b (file # files) st
                       = (Some (FileNotFoundError (output_path b)), do_event (MkdirParent act) st1))
                \<and> (fs st1 (output_path b) = Some OtherFile \<longrightarrow>
                     main_loop env w b (file # files) st
                       = (Some (UnidentifiedImageError (output_path b)), do_event (MkdirParent act) st1))
                \<and> (fs st1 (output_path b) = Some (PngFile img) \<longrightarrow>
                     (save_error env act = Some e \<longrightarrow>
                        main_loop env w b (file # files) st = (Some e, do_event (MkdirParent act) st1))
                   \<and> (save_error env act = None \<longrightarrow>
                        (soup_find_link env file = Inl e \<longrightarrow>
                           main_loop env w b (file # files) st
                             = (Some e, do_event (Save act img) (store act (PngFile img) (do_event (MkdirParent act) st1))))
                      \<and> (soup_find_link env file = Inr (Some link_tag) \<longrightarrow> map_of link_tag ''href'' = None \<longrightarrow>
                           main_loop env w b (file # files) st
                             = (Some (KeyError ''href''),
                                do_event (Save act img) (store act (PngFile img) (do_event (MkdirParent act) st1))))))))"
    by (simp add: loop_body_def process_case_def try_render_eq copy_screenshot_eq resolve_reference_def
          then_do_def Let_def c1_def act_def st1_def)
  have T: "try_render env b c file s = Continue s' \<longrightarrow>
            exit_of (subprocess env (length (filter is_Run (trace s))) c) = TimedOut
          \<or> (\<exists>n. exit_of (subprocess env (length (filter is_Run (trace s))) c) = Exited n \<and> n \<noteq> 0)"
    by (auto elim: try_render_Continue)
  have D: "exit_of (subprocess env (length (filter is_Run (trace s))) c) = NotStarted msg \<longrightarrow>
            try_render env b c file s = Raise (OSError msg) (process_ran env (output_path b) c s)"
    by (simp add: try_render_eq)
  have E: "(mkdir_error env dest = Some e \<longrightarrow> copy_screenshot env b dest s = Raise e s)
       \<and> (mkdir_error env dest = None \<longrightarrow> fs s (output_path b) = None \<longrightarrow>
            copy_screenshot env b dest s = Raise (FileNotFoundError (output_path b)) (do_event (MkdirParent dest) s))
       \<and> (mkdir_error env dest = None \<longrightarrow> fs s (output_path b) = Some OtherFile \<longrightarrow>
            copy_screenshot env b dest s = Raise (UnidentifiedImageError (output_path b)) (do_event (MkdirParent dest) s))
       \<and> (mkdir_error env dest = None \<longrightarrow> fs s (output_path b) = Some (PngFile img) \<longrightarrow> save_error env dest = Some e \<longrightarrow>
            copy_screenshot env b dest s = Raise e (do_event (MkdirParent dest) s))"
    by (simp add: copy_screenshot_eq)
  have F: "(soup_find_link env file = Inl e \<longrightarrow> resolve_reference env file s = Raise e s)
       \<and> (soup_find_link env file = Inr (Some link_tag) \<longrightarrow> map_of link_tag ''href'' = None \<longrightarrow>
            resolve_reference env file s = Raise (KeyError ''href'') s)"
    by (simp add: resolve_reference_def)
  have G: "(pixelmatch env a x (Image_new ''RGBA'' (size a)) \<lparr>threshold = 0, diff_mask = True, includeAA = True\<rparr> = Inl e \<longrightarrow>
            compare_and_report env file rel a x s = Raise e (do_event (Compare a x) s))
       \<and> (pixelmatch env a x (Image_new ''RGBA'' (size a)) \<lparr>threshold = 0, diff_mask = True, includeAA = True\<rparr> = Inr (n, d) \<longrightarrow>
            0 < n \<longrightarrow> save_error env (diff_output_path rel) = Some e \<longrightarrow>
            compare_and_report env file rel a x s = Raise e (do_event (Compare a x) s))"
    by (simp add: compare_and_report_eq)
  note E1 = E[THEN conjunct1] and E2 = E[THEN conjunct2, THEN conjunct1]
    and E3 = E[THEN conjunct2, THEN conjunct2, THEN conjunct1]
    and E4 = E[THEN conjunct2, THEN conjunct2, THEN conjunct2]
    and F1 = F[THEN conjunct1] and F2 = F[THEN conjunct2]
    and G1 = G[THEN conjunct1] and G2 = G[THEN conjunct2]
  show ?thesis
    by (intro conjI A B C P Q T D E1 E2 E3 E4 F1 F2 G1 G2)
qed

theorem unhandled_error_aborts_run_witness:
  "\<not> excluded ''/wpt/css/css-flexbox/foo.html''
   \<and> fs (process_ran (sample_env renders_nothing with_link) (output_path ''/blitz'')
            (cmd ''/blitz'' (url ''css/css-flexbox/foo.html'')) empty_state) (output_path ''/blitz'') = None
   \<and> fst (main_loop (sample_env renders_nothing with_link) ''/wpt'' ''/blitz''
             [''/wpt/css/css-flexbox/foo.html'', ''/wpt/css/css-flexbox/bar.html''] empty_state)
       = Some (FileNotFoundError ''/blitz/examples/output/localhost800.png'')
   \<and> fs (process_ran (sample_env renders_garbage with_link) (output_path ''/blitz'')
            (cmd ''/blitz'' (url ''css/css-flexbox/foo.html'')) empty_state) (output_path ''/blitz'') = Some OtherFile
   \<and> fst (main_loop (sample_env renders_garbage with_link) ''/wpt'' ''/blitz''
             [''/wpt/css/css-flexbox/foo.html'', ''/wpt/css/css-flexbox/bar.html''] empty_state)
       = Some (UnidentifiedImageError ''/blitz/examples/output/localhost800.png'')
   \<and> soup_find_link (sample_env renders_same unreadable) ''/wpt/css/css-flexbox/foo.html''
       = Inl (OtherError ''UnicodeDecodeError'')
   \<and> fst (main_loop (sample_env renders_same unreadable) ''/wpt'' ''/blitz''
             [''/wpt/css/css-flexbox/foo.html'', ''/wpt/css/css-flexbox/bar.html''] empty_state)
       = Some (OtherError ''UnicodeDecodeError'')"
proof -
  have ne: "\<not> excluded ''/wpt/css/css-flexbox/foo.html''"
    by (simp add: excluded_def suffix_to_prefix sublist_code(3))
  have rp: "relpath (sample_env sp soup) ''/wpt/css/css-flexbox/foo.html'' ''/wpt'' = ''css/css-flexbox/foo.html''"
    for sp soup
    by (simp add: sample_env_def)
  have x: "exit_of (subprocess (sample_env sp soup) (length (filter is_Run (trace empty_state))) c) = exit_of (sp 0 c)"
    for sp soup c
    by (simp add: sample_env_def empty_state_def)
  have mk: "mkdir_error (sample_env sp soup) p = None" "save_error (sample_env sp soup) p = None" for sp soup p
    by (simp_all add: sample_env_def)
  have out: "output_path ''/blitz'' = ''/blitz/examples/output/localhost800.png''"
    by (simp add: output_path_def)
  have f1: "fs (process_ran (sample_env renders_nothing with_link) (output_path ''/blitz'')
            (cmd ''/blitz'' (url ''css/css-flexbox/foo.html'')) empty_state) (output_path ''/blitz'') = None"
    by (simp add: process_ran_def store_def do_event_def Let_def sample_defs)
  have f2: "fs (process_ran (sample_env renders_garbage with_link) (output_path ''/blitz'')
            (cmd ''/blitz'' (url ''css/css-flexbox/foo.html'')) empty_state) (output_path ''/blitz'') = Some OtherFile"
    by (simp add: process_ran_def store_def do_event_def Let_def sample_defs)
  have f3: "fs (process_ran (sample_env renders_same unreadable) (output_path ''/blitz'')
            (cmd ''/blitz'' (url ''css/css-flexbox/foo.html'')) empty_state) (output_path ''/blitz'') = Some (PngFile white)"
    by (simp add: process_ran_def store_def do_event_def Let_def sample_defs)
  have h3: "soup_find_link (sample_env renders_same unreadable) ''/wpt/css/css-flexbox/foo.html''
       = Inl (OtherError ''UnicodeDecodeError'')"
    by (simp add: sample_env_def unreadable_def)
  have x1: "exit_of (renders_nothing 0 c) = Exited 0" "exit_of (renders_garbage 0 c) = Exited 0"
    "exit_of (renders_same 0 c) = Exited 0" for c
    by (simp_all add: sample_defs)
  have r1: "fst (main_loop (sample_env renders_nothing with_link) ''/wpt'' ''/blitz''
             [''/wpt/css/css-flexbox/foo.html'', ''/wpt/css/css-flexbox/bar.html''] empty_state)
       = Some (FileNotFoundError ''/blitz/examples/output/localhost800.png'')"
    using unhandled_error_aborts_run[where env="sample_env renders_nothing with_link" and w="''/wpt''" and b="''/blitz''" and st=empty_state
            and files="[''/wpt/css/css-flexbox/bar.html'']",
            THEN conjunct2, THEN conjunct2, THEN conjunct2, THEN conjunct2, THEN conjunct1, THEN mp, OF ne,
            THEN conjunct2, THEN mp] f1
    by (simp add: rp x x1 mk out)
  have r2: "fst (main_loop (sample_env renders_garbage with_link) ''/wpt'' ''/blitz''
             [''/wpt/css/css-flexbox/foo.html'', ''/wpt/css/css-flexbox/bar.html''] empty_state)
       = Some (UnidentifiedImageError ''/blitz/examples/output/localhost800.png'')"
    using unhandled_error_aborts_run[where env="sample_env renders_garbage with_link" and w="''/wpt''" and b="''/blitz''" and st=empty_state
            and files="[''/wpt/css/css-flexbox/bar.html'']",
            THEN conjunct2, THEN conjunct2, THEN conjunct2, THEN conjunct2, THEN conjunct1, THEN mp, OF ne,
            THEN conjunct2, THEN mp] f2
    by (simp add: rp x x1 mk out)
  have r3: "fst (main_loop (sample_env renders_same unreadable) ''/wpt'' ''/blitz''
             [''/wpt/css/css-flexbox/foo.html'', ''/wpt/css/css-flexbox/bar.html''] empty_state)
       = Some (OtherError ''UnicodeDecodeError'')"
    using unhandled_error_aborts_run[where env="sample_env renders_same unreadable" and w="''/wpt''" and b="''/blitz''" and st=empty_state
            and files="[''/wpt/css/css-flexbox/bar.html'']" and img=white and e="OtherError ''UnicodeDecodeError''",
            THEN conjunct2, THEN conjunct2, THEN conjunct2, THEN conjunct2, THEN conjunct1, THEN mp, OF ne,
            THEN conjunct2, THEN mp] f3 h3
    by (simp add: rp x x1 mk out)
  from ne f1 r1 f2 r2 h3 r3 show ?thesis by (intro conjI)
qed

text \<open>
  C9.  When a test case is skipped because its HTML has no link element with relation
  \<open>match\<close> (the renderer having succeeded on the test page), the actual screenshot has
  been copied to \<open>out/<relpath>-act.png\<close> before the SKIP line is logged: the case
  performs exactly the renderer invocation, the creation of the directories, the save of
  that artifact and the log.  The image saved is the one in the file at the renderer's
  output path after the invocation: the file the renderer wrote, or, had it written none,
  the image that was at that path before.  The artifact is on disk when the case ends and
  stays there for the rest of the run, whatever files with other relative paths are
  processed later; the paths of the reference screenshot and of the diff image are left as
  they were.
\<close>

theorem skip_without_link_keeps_actual:
  assumes "soup_find_link env file = Inr None"
      and "process_case env w b file st = Continue st'"
      and "exit_of (subprocess env (length (filter is_Run (trace st))) (cmd b (url (relpath env file w)))) = Exited 0"
  shows "\<exists>img. (case written (subprocess env (length (filter is_Run (trace st))) (cmd b (url (relpath env file w)))) of
                  Some f \<Rightarrow> f = PngFile img
                | None \<Rightarrow> fs st (output_path b) = Some (PngFile img))
          \<and> fs (process_ran env (output_path b) (cmd b (url (relpath env file w))) st) (output_path b) = Some (PngFile img)
          \<and> emitted st st' =
             [Run (cmd b (url (relpath env file w))) (Exited 0),
              MkdirParent (''out/'' @ relpath env file w @ ''-act.png''),
              Save (''out/'' @ relpath env file w @ ''-act.png'') img,
              Log INFO (''SKIP: '' @ file)]
          \<and> fs st' (''out/'' @ relpath env file w @ ''-act.png'') = Some (PngFile img)
          \<and> fs st' (expected_out_path (relpath env file w)) = fs st (expected_out_path (relpath env file w))
          \<and> fs st' (diff_output_path (relpath env file w)) = fs st (diff_output_path (relpath env file w))
          \<and> (\<forall>files. (\<forall>f\<in>set files. \<not> excluded f \<longrightarrow> relpath env f w \<noteq> relpath env file w) \<longrightarrow>
                fs (snd (main_loop env w b files st')) (''out/'' @ relpath env file w @ ''-act.png'') = Some (PngFile img))"
proof (cases rule: process_case_paths[of env w b "file" st])
  case (nolink a s)
  have s: "s = st'" using nolink(1) assms(2) by simp
  have src: "case written (subprocess env (length (filter is_Run (trace st))) (cmd b (url (relpath env file w)))) of
                  Some f \<Rightarrow> f = PngFile a
                | None \<Rightarrow> fs st (output_path b) = Some (PngFile a)"
    using nolink(7) by (simp add: fs_process_ran_full split: option.splits)
  have ref: "fs st' (expected_out_path (relpath env file w)) = fs st (expected_out_path (relpath env file w))"
    using nolink(6)[of "expected_out_path (relpath env file w)"] act_neq_ref[of "relpath env file w" "relpath env file w"]
      ref_neq_out[of "relpath env file w" b]
    unfolding s by auto
  have diff: "fs st' (diff_output_path (relpath env file w)) = fs st (diff_output_path (relpath env file w))"
    using nolink(6)[of "diff_output_path (relpath env file w)"] act_neq_diff[of "relpath env file w" "relpath env file w"]
      diff_neq_out[of "relpath env file w" b]
    unfolding s by auto
  have later: "fs (snd (main_loop env w b files st')) (actual_out_path (relpath env file w)) = Some (PngFile a)"
    if "\<forall>f\<in>set files. \<not> excluded f \<longrightarrow> relpath env f w \<noteq> relpath env file w" for files
  proof -
    have "fs (snd (main_loop env w b files st')) (actual_out_path (relpath env file w))
            = fs st' (actual_out_path (relpath env file w))"
      using that by (intro main_loop_frame) (auto simp: act_neq_out act_neq_ref act_neq_diff act_inj)
    then show ?thesis using nolink(5) s by simp
  qed
  have act: "actual_out_path (relpath env file w) = ''out/'' @ relpath env file w @ ''-act.png''"
    by (simp add: actual_out_path_def)
  show ?thesis
    using nolink(4,5,7) src ref diff later unfolding s act skip_message_def
    by (intro exI[of _ a]) auto
qed (use assms in auto)

theorem skip_without_link_keeps_actual_witness:
  "soup_find_link (sample_env renders_same without_link) ''/wpt/css/css-flexbox/foo.html'' = Inr None
   \<and> process_case (sample_env renders_same without_link) ''/wpt'' ''/blitz'' ''/wpt/css/css-flexbox/foo.html'' empty_state
       = Continue (state_of (process_case (sample_env renders_same without_link) ''/wpt'' ''/blitz''
                               ''/wpt/css/css-flexbox/foo.html'' empty_state))
   \<and> written (subprocess (sample_env renders_same without_link) 0 (cmd ''/blitz'' (url ''css/css-flexbox/foo.html'')))
       = Some (PngFile white)
   \<and> fs (state_of (process_case (sample_env renders_same without_link) ''/wpt'' ''/blitz''
                               ''/wpt/css/css-flexbox/foo.html'' empty_state))
               ''out/css/css-flexbox/foo.html-act.png'' = Some (PngFile white)
   \<and> emitted empty_state (state_of (process_case (sample_env renders_same without_link) ''/wpt'' ''/blitz''
                               ''/wpt/css/css-flexbox/foo.html'' empty_state))
       = [Run (cmd ''/blitz'' (url ''css/css-flexbox/foo.html'')) (Exited 0),
          MkdirParent ''out/css/css-flexbox/foo.html-act.png'',
          Save ''out/css/css-flexbox/foo.html-act.png'' white,
          Log INFO ''SKIP: /wpt/css/css-flexbox/foo.html'']"
proof -
  have h: "soup_find_link (sample_env renders_same without_link) ''/wpt/css/css-flexbox/foo.html'' = Inr None"
    by (simp add: sample_env_def without_link_def)
  have r: "process_case (sample_env renders_same without_link) ''/wpt'' ''/blitz'' ''/wpt/css/css-flexbox/foo.html'' empty_state
       = Continue (state_of (process_case (sample_env renders_same without_link) ''/wpt'' ''/blitz''
                               ''/wpt/css/css-flexbox/foo.html'' empty_state))"
    by (simp add: model_defs sample_defs)
  have x: "exit_of (subprocess (sample_env renders_same without_link) (length (filter is_Run (trace empty_state)))
             (cmd ''/blitz'' (url (relpath (sample_env renders_same without_link) ''/wpt/css/css-flexbox/foo.html'' ''/wpt''))))
           = Exited 0"
    by (simp add: sample_env_def renders_same_def)
  have p: "relpath (sample_env renders_same without_link) ''/wpt/css/css-flexbox/foo.html'' ''/wpt'' = ''css/css-flexbox/foo.html''"
    by (simp add: sample_env_def)
  have t: "length (filter is_Run (trace empty_state)) = 0"
    by (simp add: empty_state_def)
  have wr: "written (subprocess (sample_env renders_same without_link) 0 (cmd ''/blitz'' (url ''css/css-flexbox/foo.html'')))
       = Some (PngFile white)"
    by (simp add: sample_env_def renders_same_def)
  from skip_without_link_keeps_actual[OF h r x] h r wr show ?thesis unfolding p t by auto
qed

text \<open>
  C10.  A file excluded by the filter of line 80 (its name ends in \<open>-ref.html\<close> or in
  \<open>.tentative.html\<close>, or its path contains \<open>reference\<close>) causes no action at all: the
  loop body goes to the next file with the state it was given, so no line of any kind is
  logged, the renderer is not invoked and nothing is written.
\<close>

theorem excluded_file_no_action:
  assumes "suffix ''-ref.html'' file \<or> suffix ''.tentative.html'' file \<or> sublist ''reference'' file"
  shows "loop_body env w b file st = Continue st
       \<and> emitted st (state_of (loop_body env w b file st)) = []
       \<and> fs (state_of (loop_body env w b file st)) = fs st
       \<and> main_loop env w b (file # files) st = main_loop env w b files st"
  using assms by (simp add: loop_body_def excluded_def emitted_def)

theorem excluded_file_no_action_witness:
  "suffix ''-ref.html'' ''/wpt/css/css-flexbox/foo-ref.html''
   \<and> loop_body (sample_env renders_same with_link) ''/wpt'' ''/blitz'' ''/wpt/css/css-flexbox/foo-ref.html'' empty_state
       = Continue empty_state
   \<and> main_loop (sample_env renders_same with_link) ''/wpt'' ''/blitz''
        [''/wpt/css/css-flexbox/foo-ref.html'', ''/wpt/css/css-flexbox/foo.html''] empty_state
     = main_loop (sample_env renders_same with_link) ''/wpt'' ''/blitz'' [''/wpt/css/css-flexbox/foo.html''] empty_state"
proof -
  have h: "suffix ''-ref.html'' ''/wpt/css/css-flexbox/foo-ref.html''"
    by (simp add: suffix_to_prefix)
  from excluded_file_no_action[OF disjI1[OF h]] h show ?thesis by blast
qed

end
